theory Spec2Isabelle
  imports Main
begin

section \<open>Stored values, rows and entity schemas\<close>

text \<open>
  The adapter (\<^verbatim>\<open>src/unnamed/part_000\<close>, which the provider imports as
  \<^verbatim>\<open>adapter.js\<close>) keeps the provider's objects in one relational table
  per entity kind, through an object-relational mapper. An object is a finite set of
  named fields; a payload handed over by the provider is such an object too. A field that
  is \<^verbatim>\<open>undefined\<close> or \<^verbatim>\<open>null\<close> is a field the object does not have (\<open>None\<close>). A table is
  the list of its rows, oldest first.
\<close>

datatype val = Str string | Num int | Bool bool | Arr "val list"

type_synonym entity = "string \<rightharpoonup> val"

type_synonym criteria = "(string \<times> val) list"

type_synonym repository = "entity list"

text \<open>
  A column of an \<^verbatim>\<open>EntitySchema\<close> of the source: its name and its options
  \<^verbatim>\<open>primary\<close>, \<^verbatim>\<open>type\<close> and \<^verbatim>\<open>nullable\<close> (an option the source leaves out is false). The
  connection is opened with \<^verbatim>\<open>synchronize: true\<close>, so the tables have exactly these
  columns, and a column that is not \<^verbatim>\<open>nullable\<close> is \<^verbatim>\<open>NOT NULL\<close>.
\<close>

datatype column =
  Column (column_name: string) (primary: bool) (column_type: string) (nullable: bool)

record schema =
  name :: string
  tableName :: string
  columns :: "column list"

definition ClientSchema :: schema where
  "ClientSchema = \<lparr>name = ''Client'', tableName = ''clients'',
     columns = [Column ''client_id'' True ''varchar'' False,
                Column ''client_secret'' False ''varchar'' False,
                Column ''redirect_uris'' False ''simple-json'' False,
                Column ''grant_types'' False ''simple-json'' False,
                Column ''response_types'' False ''simple-json'' False,
                Column ''token_endpoint_auth_method'' False ''varchar'' False,
                Column ''require_pkce'' False ''boolean'' False]\<rparr>"

definition SessionSchema :: schema where
  "SessionSchema = \<lparr>name = ''Session'', tableName = ''sessions'',
     columns = [Column ''uid'' True ''varchar'' False,
                Column ''jti'' False ''varchar'' False,
                Column ''grantId'' False ''varchar'' False]\<rparr>"

definition GrantSchema :: schema where
  "GrantSchema = \<lparr>name = ''Grant'', tableName = ''grants'',
     columns = [Column ''id'' True ''varchar'' False,
                Column ''accountId'' False ''varchar'' False,
                Column ''claims'' False ''simple-json'' False]\<rparr>"

definition CodeSchema :: schema where
  "CodeSchema = \<lparr>name = ''Code'', tableName = ''codes'',
     columns = [Column ''code'' True ''varchar'' False,
                Column ''client_id'' False ''varchar'' False,
                Column ''redirect_uri'' False ''varchar'' False,
                Column ''response_type'' False ''varchar'' False,
                Column ''scope'' False ''varchar'' False,
                Column ''state'' False ''varchar'' False,
                Column ''code_challenge'' False ''varchar'' False,
                Column ''code_challenge_method'' False ''varchar'' False]\<rparr>"

definition AccessTokenSchema :: schema where
  "AccessTokenSchema = \<lparr>name = ''AccessToken'', tableName = ''access_tokens'',
     columns = [Column ''access_token'' True ''varchar'' False,
                Column ''client_id'' False ''varchar'' False,
                Column ''account_id'' False ''varchar'' False,
                Column ''scope'' False ''varchar'' False,
                Column ''expires_at'' False ''bigint'' False]\<rparr>"

definition RefreshTokenSchema :: schema where
  "RefreshTokenSchema = \<lparr>name = ''RefreshToken'', tableName = ''refresh_tokens'',
     columns = [Column ''refresh_token'' True ''varchar'' False,
                Column ''client_id'' False ''varchar'' False,
                Column ''account_id'' False ''varchar'' False,
                Column ''scope'' False ''varchar'' False,
                Column ''expires_at'' False ''bigint'' False]\<rparr>"

definition DeviceCodeSchema :: schema where
  "DeviceCodeSchema = \<lparr>name = ''DeviceCode'', tableName = ''device_codes'',
     columns = [Column ''device_code'' True ''varchar'' False,
                Column ''user_code'' False ''varchar'' False,
                Column ''client_id'' False ''varchar'' False,
                Column ''scope'' False ''varchar'' False,
                Column ''expires_at'' False ''bigint'' False]\<rparr>"

definition InteractionSchema :: schema where
  "InteractionSchema = \<lparr>name = ''Interaction'', tableName = ''interactions'',
     columns = [Column ''uid'' True ''varchar'' False,
                Column ''jti'' False ''varchar'' False,
                Column ''grantId'' False ''varchar'' True,
                Column ''session'' False ''simple-json'' True,
                Column ''params'' False ''simple-json'' True]\<rparr>"

text \<open>The \<^verbatim>\<open>entities\<close> array given to \<^verbatim>\<open>createConnection\<close>.\<close>

definition entities :: "schema list" where
  "entities = [ClientSchema, SessionSchema, GrantSchema, CodeSchema, AccessTokenSchema,
               RefreshTokenSchema, DeviceCodeSchema, InteractionSchema]"

definition metadata :: "string \<Rightarrow> schema option" where
  "metadata model = List.find (\<lambda>s. name s = model) entities"

definition models :: "string list" where
  "models = map name entities"

text \<open>
  What a repository knows of its table: the columns, their names, the primary column,
  the columns that are \<^verbatim>\<open>NOT NULL\<close> and the type of a column. A name that is not
  registered has no metadata: no column at all.
\<close>

definition columns_list :: "string \<Rightarrow> column list" where
  "columns_list model = (case metadata model of Some s \<Rightarrow> columns s | None \<Rightarrow> [])"

definition columns_of :: "string \<Rightarrow> string list" where
  "columns_of model = map column_name (columns_list model)"

definition primary_of :: "string \<Rightarrow> string" where
  "primary_of model =
     (case List.find primary (columns_list model) of Some c \<Rightarrow> column_name c | None \<Rightarrow> [])"

definition required_of :: "string \<Rightarrow> string list" where
  "required_of model = map column_name (filter (\<lambda>c. \<not> nullable c) (columns_list model))"

definition type_of :: "string \<Rightarrow> string \<Rightarrow> string" where
  "type_of model k =
     (case List.find (\<lambda>c. column_name c = k) (columns_list model) of
        Some c \<Rightarrow> column_type c
      | None \<Rightarrow> [])"

text \<open>
  What a column gives back for a value written to it. A value of the column's type
  (a string in a \<^verbatim>\<open>varchar\<close> column, a number in a \<^verbatim>\<open>bigint\<close> column, a boolean in a
  \<^verbatim>\<open>boolean\<close> column, any value in a \<^verbatim>\<open>simple-json\<close> column) is read back as it was
  written. Any other value is converted by the database (a \<^verbatim>\<open>varchar\<close> column gives back
  a string for a number); the conversion belongs to the database driver, which is not
  among the sources, and is the parameter \<open>coerce\<close> of every definition that writes.
\<close>

definition fits :: "string \<Rightarrow> val \<Rightarrow> bool" where
  "fits t v =
     (if t = ''varchar'' then (case v of Str s \<Rightarrow> True | _ \<Rightarrow> False)
      else if t = ''bigint'' then (case v of Num n \<Rightarrow> True | _ \<Rightarrow> False)
      else if t = ''boolean'' then (case v of Bool b \<Rightarrow> True | _ \<Rightarrow> False)
      else t = ''simple-json'')"

definition stored :: "(string \<Rightarrow> val \<Rightarrow> val) \<Rightarrow> string \<Rightarrow> val \<Rightarrow> val" where
  "stored coerce t v = (if fits t v then v else coerce t v)"


section \<open>The repository operations the adapter calls\<close>

text \<open>
  What can be thrown: by the factory while the connection is unset, by the connection for
  a name without a repository, by \<^verbatim>\<open>upsert\<close> and \<^verbatim>\<open>find\<close> at the end of their chain of
  kinds, and by the table for a new row that lacks a column that is \<^verbatim>\<open>NOT NULL\<close>.
\<close>

datatype error =
    ConnectionNotEstablished
  | RepositoryNotFound string
  | UnknownModel string
  | NotNullConstraint string

text \<open>
  The adapter reaches its tables through the repository methods of an object-relational
  mapper, an external library whose code is not among the sources. The methods are
  modelled after the storage contract of the specification (point lookup, put, delete,
  delete-where, per-field merge) over the rows of one table with the columns its schema
  declares.
\<close>

text \<open>
  Modelled from the spec: the predicate of a lookup or a delete-where. A row matches when
  its fields equal all the criteria; a row that lacks a field named there does not match.
\<close>

definition matches :: "criteria \<Rightarrow> entity \<Rightarrow> bool" where
  "matches c r = list_all (\<lambda>(k, v). r k = Some v) c"

text \<open>
  Modelled from the spec: \<^verbatim>\<open>findOne(criteria)\<close>, the point lookup. It is the oldest row
  that matches, or nothing. A bare key (\<^verbatim>\<open>findOne(id)\<close>, \<^verbatim>\<open>delete(grantId)\<close>) stands for the
  criterion on the primary column.
\<close>

definition findOne :: "criteria \<Rightarrow> repository \<Rightarrow> entity option" where
  "findOne c repo = List.find (matches c) repo"

text \<open>
  Modelled from the spec: \<^verbatim>\<open>create(fields)\<close>, the new shell of a record. It has the given
  fields that are columns of the schema.
\<close>

definition create :: "string \<Rightarrow> criteria \<Rightarrow> entity" where
  "create model init = map_of init |` set (columns_of model)"

text \<open>
  Modelled from the spec: \<^verbatim>\<open>merge(entity, payload)\<close>, the additive merge. A column the
  payload gives is overwritten, every other field of the entity stays; a payload field
  that is no column of the schema is not taken over.
\<close>

definition merge :: "string \<Rightarrow> entity \<Rightarrow> entity \<Rightarrow> entity" where
  "merge model entity payload = entity ++ (payload |` set (columns_of model))"

text \<open>
  Modelled from the spec: \<^verbatim>\<open>save(entity)\<close>, the put. The row that has the entity's
  primary key is updated: a field of the entity that differs from the row's is written
  to its column, every other column stays. When no row has the key the entity is
  inserted as a new row, which the table rejects when the entity lacks a column that is
  \<^verbatim>\<open>NOT NULL\<close>. What a column holds after a write is what it gives back (\<open>stored\<close>).
\<close>

definition written :: "(string \<Rightarrow> val \<Rightarrow> val) \<Rightarrow> string \<Rightarrow> entity \<Rightarrow> entity" where
  "written coerce model entity =
     (\<lambda>k. map_option (stored coerce (type_of model k)) (entity k))"

definition updated :: "(string \<Rightarrow> val \<Rightarrow> val) \<Rightarrow> string \<Rightarrow> entity \<Rightarrow> entity \<Rightarrow> entity" where
  "updated coerce model entity r =
     (\<lambda>k. case entity k of
            None \<Rightarrow> r k
          | Some v \<Rightarrow> if r k = Some v then Some v else Some (stored coerce (type_of model k) v))"

definition save ::
  "(string \<Rightarrow> val \<Rightarrow> val) \<Rightarrow> string \<Rightarrow> entity \<Rightarrow> repository \<Rightarrow> error + repository" where
  "save coerce model entity repo =
     (let pk = primary_of model; key = written coerce model entity pk in
      if list_ex (\<lambda>r. r pk = key) repo
      then Inr (map (\<lambda>r. if r pk = key then updated coerce model entity r else r) repo)
      else (case List.find (\<lambda>k. entity k = None) (required_of model) of
              Some k \<Rightarrow> Inl (NotNullConstraint k)
            | None \<Rightarrow> Inr (repo @ [written coerce model entity])))"

text \<open>
  Modelled from the spec: \<^verbatim>\<open>delete(criteria)\<close>, the delete-where. Every row that matches
  is removed, and it is no error when none does.
\<close>

definition delete :: "criteria \<Rightarrow> repository \<Rightarrow> repository" where
  "delete c repo = filter (\<lambda>r. \<not> matches c r) repo"

text \<open>The idiom \<^verbatim>\<open>await repository.findOne(c) || repository.create(c)\<close> of \<^verbatim>\<open>upsert\<close>.\<close>

definition findOne_or_create :: "string \<Rightarrow> criteria \<Rightarrow> repository \<Rightarrow> entity" where
  "findOne_or_create model c repo =
     (case findOne c repo of Some e \<Rightarrow> e | None \<Rightarrow> create model c)"


section \<open>The adapter\<close>

text \<open>
  The methods of the object \<^verbatim>\<open>typeormAdapter(model)\<close> returns. Each takes the captured
  \<^verbatim>\<open>model\<close> first and the rows of the captured repository last; a rejected promise is
  \<open>Inl\<close>. A lookup returns the row or \<open>None\<close> (\<^verbatim>\<open>undefined\<close>, \<^verbatim>\<open>null\<close>); \<^verbatim>\<open>upsert\<close>
  returns the entity and the new rows, or the error \<^verbatim>\<open>save\<close> threw with the rows as they
  were; the removing methods return the new rows. The parameter \<^verbatim>\<open>id\<close> of the source is
  \<open>ident\<close> here.
\<close>

definition upsert ::
  "(string \<Rightarrow> val \<Rightarrow> val) \<Rightarrow> string \<Rightarrow> string \<Rightarrow> entity \<Rightarrow> int option \<Rightarrow> repository
     \<Rightarrow> error + entity \<times> repository" where
  "upsert coerce model ident payload expiresIn repo =
     (case (if model = ''Client'' then Inr (findOne_or_create model [(''client_id'', Str ident)] repo)
            else if model = ''Session'' then Inr (findOne_or_create model [(''uid'', Str ident)] repo)
            else if model = ''Grant'' then Inr (findOne_or_create model [(''id'', Str ident)] repo)
            else if model = ''Code'' then Inr (findOne_or_create model [(''code'', Str ident)] repo)
            else if model = ''AccessToken''
              then Inr (findOne_or_create model [(''access_token'', Str ident)] repo)
            else if model = ''RefreshToken''
              then Inr (findOne_or_create model [(''refresh_token'', Str ident)] repo)
            else if model = ''DeviceCode''
              then Inr (findOne_or_create model [(''device_code'', Str ident)] repo)
            else if model = ''Interaction''
              then Inr (findOne_or_create model [(''uid'', Str ident)] repo)
            else Inl (UnknownModel model)) of
        Inl err \<Rightarrow> Inl err
      | Inr entity \<Rightarrow>
          (let merged = merge model entity payload
           in case save coerce model merged repo of
                Inl err \<Rightarrow> Inl err
              | Inr repo' \<Rightarrow> Inr (merged, repo')))"

definition find :: "string \<Rightarrow> string \<Rightarrow> repository \<Rightarrow> error + entity option" where
  "find model ident repo =
     (if model = ''Client'' then Inr (findOne [(''client_id'', Str ident)] repo)
      else if model = ''Session'' then Inr (findOne [(''uid'', Str ident)] repo)
      else if model = ''Grant'' then Inr (findOne [(''id'', Str ident)] repo)
      else if model = ''Code'' then Inr (findOne [(''code'', Str ident)] repo)
      else if model = ''AccessToken'' then Inr (findOne [(''access_token'', Str ident)] repo)
      else if model = ''RefreshToken'' then Inr (findOne [(''refresh_token'', Str ident)] repo)
      else if model = ''DeviceCode'' then Inr (findOne [(''device_code'', Str ident)] repo)
      else if model = ''Interaction'' then Inr (findOne [(''uid'', Str ident)] repo)
      else Inl (UnknownModel model))"

definition findByUid :: "string \<Rightarrow> string \<Rightarrow> repository \<Rightarrow> error + entity option" where
  "findByUid model uid repo =
     (if model = ''Session'' \<or> model = ''Interaction''
      then Inr (findOne [(''uid'', Str uid)] repo)
      else Inr None)"

definition findByUserCode :: "string \<Rightarrow> string \<Rightarrow> repository \<Rightarrow> error + entity option" where
  "findByUserCode model userCode repo =
     (if model = ''DeviceCode''
      then Inr (findOne [(''user_code'', Str userCode)] repo)
      else Inr None)"

definition findByUidAndUserCode ::
  "string \<Rightarrow> string \<Rightarrow> string \<Rightarrow> repository \<Rightarrow> error + entity option" where
  "findByUidAndUserCode model uid userCode repo =
     (if model = ''DeviceCode''
      then Inr (findOne [(''device_code'', Str uid), (''user_code'', Str userCode)] repo)
      else Inr None)"

definition destroy :: "string \<Rightarrow> string \<Rightarrow> repository \<Rightarrow> error + repository" where
  "destroy model ident repo =
     (if model = ''Interaction'' \<or> model = ''Session'' \<or> model = ''Code'' \<or> model = ''Grant''
         \<or> model = ''AccessToken'' \<or> model = ''RefreshToken''
      then Inr (delete [(''uid'', Str ident)] repo)
      else Inr repo)"

definition consume :: "string \<Rightarrow> string \<Rightarrow> repository \<Rightarrow> error + repository" where
  "consume model ident repo =
     (if model = ''Code'' then Inr (delete [(''code'', Str ident)] repo) else Inr repo)"

definition destroyByGrantId :: "string \<Rightarrow> string \<Rightarrow> repository \<Rightarrow> error + repository" where
  "destroyByGrantId model grantId repo =
     (if model = ''Grant'' then Inr (delete [(primary_of model, Str grantId)] repo)
      else Inr repo)"

definition revokeByGrantId :: "string \<Rightarrow> string \<Rightarrow> repository \<Rightarrow> error + repository" where
  "revokeByGrantId model grantId repo =
     (if model = ''AccessToken'' \<or> model = ''RefreshToken''
      then Inr (delete [(''grantId'', Str grantId)] repo)
      else Inr repo)"

text \<open>
  The module-level \<^verbatim>\<open>connection\<close> is unset (\<open>None\<close>) until \<^verbatim>\<open>initializeAdapter\<close> has
  run; \<^verbatim>\<open>initializeAdapter\<close> opens the database, whose driver and tables are its argument
  here. The factory throws while the connection is unset. Otherwise it asks the
  connection for the repository of \<^verbatim>\<open>model\<close>; on the line of the mapper whose
  \<^verbatim>\<open>findOne(id)\<close> the adapter uses, \<^verbatim>\<open>getRepository\<close> throws \<^verbatim>\<open>RepositoryNotFoundError\<close>
  for a name none of the connection's schemas has, and the factory with it. With the
  repository at hand the factory returns the object of the nine methods, each closed
  over \<^verbatim>\<open>model\<close> and the repository. The rows of the repository go in and out of each
  method explicitly.
\<close>

record connection =
  driver :: "string \<Rightarrow> val \<Rightarrow> val"
  tables :: "string \<Rightarrow> repository"

definition getRepository :: "connection \<Rightarrow> string \<Rightarrow> error + string" where
  "getRepository c model =
     (case metadata model of
        None \<Rightarrow> Inl (RepositoryNotFound model)
      | Some s \<Rightarrow> Inr (tableName s))"






text \<open>
  The calls of one adapter that do not write a record: the lookups and the removals. The
  rows after such a call are the rows the removing method returns; a lookup leaves them
  as they are.
\<close>

datatype call =
    Find string
  | FindByUid string
  | FindByUserCode string
  | FindByUidAndUserCode string string
  | Destroy string
  | Consume string
  | DestroyByGrantId string
  | RevokeByGrantId string

definition rows_or :: "repository \<Rightarrow> error + repository \<Rightarrow> repository" where
  "rows_or repo result = (case result of Inl err \<Rightarrow> repo | Inr repo' \<Rightarrow> repo')"

fun rows_after :: "string \<Rightarrow> call \<Rightarrow> repository \<Rightarrow> repository" where
  "rows_after model (Find ident) repo = repo"
| "rows_after model (FindByUid uid) repo = repo"
| "rows_after model (FindByUserCode userCode) repo = repo"
| "rows_after model (FindByUidAndUserCode uid userCode) repo = repo"
| "rows_after model (Destroy ident) repo = rows_or repo (destroy model ident repo)"
| "rows_after model (Consume ident) repo = rows_or repo (consume model ident repo)"
| "rows_after model (DestroyByGrantId grantId) repo = rows_or repo (destroyByGrantId model grantId repo)"
| "rows_after model (RevokeByGrantId grantId) repo = rows_or repo (revokeByGrantId model grantId repo)"

definition rows_after_all :: "string \<Rightarrow> call list \<Rightarrow> repository \<Rightarrow> repository" where
  "rows_after_all model calls repo = fold (rows_after model) calls repo"

text \<open>
  The rows of a table that came about through the adapter carry declared columns only.
\<close>

definition schema_rows :: "string \<Rightarrow> repository \<Rightarrow> bool" where
  "schema_rows model repo = list_all (\<lambda>r. dom r \<subseteq> set (columns_of model)) repo"


text \<open>
  A payload keeps the key of a record when it does not set the kind's key column to a
  value other than the id the record is stored under. It is typed when every column it
  gives has a value of the column's type. It is complete for an id when a record is
  stored under the id already, or it gives every column that is \<^verbatim>\<open>NOT NULL\<close> (the key
  column apart, which the new shell has).
\<close>

definition key_kept :: "string \<Rightarrow> string \<Rightarrow> entity \<Rightarrow> bool" where
  "key_kept model ident payload \<longleftrightarrow>
     payload (primary_of model) = None \<or> payload (primary_of model) = Some (Str ident)"

definition typed :: "string \<Rightarrow> entity \<Rightarrow> bool" where
  "typed model payload =
     list_all (\<lambda>k. case payload k of None \<Rightarrow> True | Some v \<Rightarrow> fits (type_of model k) v)
       (columns_of model)"

definition complete :: "string \<Rightarrow> string \<Rightarrow> entity \<Rightarrow> repository \<Rightarrow> bool" where
  "complete model ident payload repo \<longleftrightarrow>
     findOne [(primary_of model, Str ident)] repo \<noteq> None
     \<or> list_all (\<lambda>k. k = primary_of model \<or> payload k \<noteq> None) (required_of model)"


section \<open>The relying party's login and callback routes\<close>

text \<open>
  The relying party (\<^verbatim>\<open>app.js\<close>) keeps the PKCE verifier and the state of a login
  attempt in the session and hands both to the client library's
  \<^verbatim>\<open>authorizationCodeGrant\<close> when the provider redirects back. The library functions
  are parameters; \<^verbatim>\<open>authorizationCodeGrant\<close> acts on the world outside (the provider's
  token endpoint) and either throws (\<open>Inl\<close>) or returns the tokens. The random verifier
  and state \<^verbatim>\<open>/login\<close> draws are parameters too.
\<close>

record tokens =
  access_token :: string
  claims :: "(string \<rightharpoonup> string) option"

record session =
  code_verifier :: "string option"
  state :: "string option"
  tokenSet :: "tokens option"
  expectedSubject :: "string option"

record checks =
  pkceCodeVerifier :: "string option"
  expectedState :: "string option"

record request =
  protocol :: string
  host :: string
  originalUrl :: string

record authorization_parameters =
  redirect_uri :: string
  scope :: string
  code_challenge :: string
  code_challenge_method :: string
  state_parameter :: string

datatype response = Send nat string | Redirect string

definition currentUrl :: "request \<Rightarrow> string" where
  "currentUrl req = protocol req @ ''://'' @ host req @ originalUrl req"

definition login ::
  "(string \<Rightarrow> string) \<Rightarrow> (authorization_parameters \<Rightarrow> string) \<Rightarrow> bool \<Rightarrow> string \<Rightarrow> string
     \<Rightarrow> session \<Rightarrow> response \<times> session" where
  "login calculatePKCECodeChallenge buildAuthorizationUrl oidcClient randomPKCECodeVerifier
       randomState sess =
     (if \<not> oidcClient then (Send 200 ''OIDC client not initialized'', sess)
      else
        (let sess' = sess\<lparr>code_verifier := Some randomPKCECodeVerifier, state := Some randomState\<rparr>;
             authorizationUrl = buildAuthorizationUrl
               \<lparr>redirect_uri = ''https://localhost:3000/callback'',
                scope = ''openid profile email'',
                code_challenge = calculatePKCECodeChallenge randomPKCECodeVerifier,
                code_challenge_method = ''S256'',
                state_parameter = randomState\<rparr>
         in (Redirect authorizationUrl, sess')))"

text \<open>
  \<^verbatim>\<open>/callback\<close> of \<^verbatim>\<open>src/rp-demo/app.js\<close>. Everything runs inside one \<^verbatim>\<open>try\<close>: a throw of
  the library, or of reading \<^verbatim>\<open>sub\<close> from the claims of a token set without an ID
  token, ends in the \<^verbatim>\<open>catch\<close>, which answers 500. The session keeps what was assigned
  before the throw.
\<close>

definition app_callback ::
  "(string \<Rightarrow> checks \<Rightarrow> 'w \<Rightarrow> ('e + tokens) \<times> 'w) \<Rightarrow> bool \<Rightarrow> request \<Rightarrow> session \<Rightarrow> 'w
     \<Rightarrow> response \<times> session \<times> 'w" where
  "app_callback authorizationCodeGrant config req sess w =
     (if \<not> config then (Send 200 ''OIDC configuration not yet loaded.'', sess, w)
      else
        (case authorizationCodeGrant (currentUrl req)
                \<lparr>pkceCodeVerifier = code_verifier sess, expectedState = state sess\<rparr> w of
           (Inl err, w') \<Rightarrow> (Send 500 ''Callback error'', sess, w')
         | (Inr tokens, w') \<Rightarrow>
             (let sess' = sess\<lparr>tokenSet := Some tokens\<rparr> in
              case claims tokens of
                None \<Rightarrow> (Send 500 ''Callback error'', sess', w')
              | Some idTokenClaims \<Rightarrow>
                  (Redirect ''/'', sess'\<lparr>expectedSubject := idTokenClaims ''sub''\<rparr>, w'))))"

text \<open>The other copy of the route (\<^verbatim>\<open>src/unnamed/part_001\<close>), which stores the tokens only.\<close>

definition part_001_callback ::
  "(string \<Rightarrow> checks \<Rightarrow> 'w \<Rightarrow> ('e + tokens) \<times> 'w) \<Rightarrow> bool \<Rightarrow> request \<Rightarrow> session \<Rightarrow> 'w
     \<Rightarrow> response \<times> session \<times> 'w" where
  "part_001_callback authorizationCodeGrant oidcClient req sess w =
     (if \<not> oidcClient then (Send 200 ''OIDC client not initialized'', sess, w)
      else
        (case authorizationCodeGrant (currentUrl req)
                \<lparr>pkceCodeVerifier = code_verifier sess, expectedState = state sess\<rparr> w of
           (Inl err, w') \<Rightarrow> (Send 200 ''Callback error'', sess, w')
         | (Inr tokens, w') \<Rightarrow> (Redirect ''/'', sess\<lparr>tokenSet := Some tokens\<rparr>, w')))"


section \<open>Facts about the schemas and the repository operations\<close>

lemma metadata_simps:
  "metadata ''Client'' = Some ClientSchema"
  "metadata ''Session'' = Some SessionSchema"
  "metadata ''Grant'' = Some GrantSchema"
  "metadata ''Code'' = Some CodeSchema"
  "metadata ''AccessToken'' = Some AccessTokenSchema"
  "metadata ''RefreshToken'' = Some RefreshTokenSchema"
  "metadata ''DeviceCode'' = Some DeviceCodeSchema"
  "metadata ''Interaction'' = Some InteractionSchema"
  by (simp_all add: metadata_def entities_def ClientSchema_def SessionSchema_def GrantSchema_def
      CodeSchema_def AccessTokenSchema_def RefreshTokenSchema_def DeviceCodeSchema_def
      InteractionSchema_def)

lemma models_eq:
  "models = [''Client'', ''Session'', ''Grant'', ''Code'', ''AccessToken'', ''RefreshToken'',
             ''DeviceCode'', ''Interaction'']"
  by (simp add: models_def entities_def ClientSchema_def SessionSchema_def GrantSchema_def
      CodeSchema_def AccessTokenSchema_def RefreshTokenSchema_def DeviceCodeSchema_def
      InteractionSchema_def)

lemma columns_list_simps:
  "columns_list ''Client'' = columns ClientSchema"
  "columns_list ''Session'' = columns SessionSchema"
  "columns_list ''Grant'' = columns GrantSchema"
  "columns_list ''Code'' = columns CodeSchema"
  "columns_list ''AccessToken'' = columns AccessTokenSchema"
  "columns_list ''RefreshToken'' = columns RefreshTokenSchema"
  "columns_list ''DeviceCode'' = columns DeviceCodeSchema"
  "columns_list ''Interaction'' = columns InteractionSchema"
  by (simp_all add: columns_list_def metadata_simps)

lemma primary_of_simps:
  "primary_of ''Client'' = ''client_id''"
  "primary_of ''Session'' = ''uid''"
  "primary_of ''Grant'' = ''id''"
  "primary_of ''Code'' = ''code''"
  "primary_of ''AccessToken'' = ''access_token''"
  "primary_of ''RefreshToken'' = ''refresh_token''"
  "primary_of ''DeviceCode'' = ''device_code''"
  "primary_of ''Interaction'' = ''uid''"
  by (simp_all add: primary_of_def columns_list_simps ClientSchema_def SessionSchema_def GrantSchema_def
      CodeSchema_def AccessTokenSchema_def RefreshTokenSchema_def DeviceCodeSchema_def
      InteractionSchema_def)

lemma columns_of_simps:
  "columns_of ''Client'' = [''client_id'', ''client_secret'', ''redirect_uris'', ''grant_types'',
                ''response_types'', ''token_endpoint_auth_method'', ''require_pkce'']"
  "columns_of ''Session'' = [''uid'', ''jti'', ''grantId'']"
  "columns_of ''Grant'' = [''id'', ''accountId'', ''claims'']"
  "columns_of ''Code'' = [''code'', ''client_id'', ''redirect_uri'', ''response_type'', ''scope'',
                ''state'', ''code_challenge'', ''code_challenge_method'']"
  "columns_of ''AccessToken'' = [''access_token'', ''client_id'', ''account_id'', ''scope'', ''expires_at'']"
  "columns_of ''RefreshToken'' = [''refresh_token'', ''client_id'', ''account_id'', ''scope'', ''expires_at'']"
  "columns_of ''DeviceCode'' = [''device_code'', ''user_code'', ''client_id'', ''scope'', ''expires_at'']"
  "columns_of ''Interaction'' = [''uid'', ''jti'', ''grantId'', ''session'', ''params'']"
  by (simp_all add: columns_of_def columns_list_simps ClientSchema_def SessionSchema_def GrantSchema_def
      CodeSchema_def AccessTokenSchema_def RefreshTokenSchema_def DeviceCodeSchema_def
      InteractionSchema_def)

lemma required_of_simps:
  "required_of ''Client'' = columns_of ''Client''"
  "required_of ''Session'' = columns_of ''Session''"
  "required_of ''Grant'' = columns_of ''Grant''"
  "required_of ''Code'' = columns_of ''Code''"
  "required_of ''AccessToken'' = columns_of ''AccessToken''"
  "required_of ''RefreshToken'' = columns_of ''RefreshToken''"
  "required_of ''DeviceCode'' = columns_of ''DeviceCode''"
  "required_of ''Interaction'' = [''uid'', ''jti'']"
  by (simp_all add: required_of_def columns_of_def columns_list_simps ClientSchema_def
      SessionSchema_def GrantSchema_def CodeSchema_def AccessTokenSchema_def
      RefreshTokenSchema_def DeviceCodeSchema_def InteractionSchema_def)

lemma type_of_simps:
  "type_of ''Grant'' ''id'' = ''varchar''"
  "type_of ''Grant'' ''accountId'' = ''varchar''"
  "type_of ''Grant'' ''claims'' = ''simple-json''"
  "type_of ''Code'' k = (if k \<in> set (columns_of ''Code'') then ''varchar'' else [])"
  "type_of ''AccessToken'' k =
     (if k = ''expires_at'' then ''bigint''
      else if k \<in> set (columns_of ''AccessToken'') then ''varchar'' else [])"
  "type_of ''RefreshToken'' k =
     (if k = ''expires_at'' then ''bigint''
      else if k \<in> set (columns_of ''RefreshToken'') then ''varchar'' else [])"
  "type_of ''DeviceCode'' k =
     (if k = ''expires_at'' then ''bigint''
      else if k \<in> set (columns_of ''DeviceCode'') then ''varchar'' else [])"
  by (simp_all add: type_of_def columns_of_def columns_list_simps GrantSchema_def CodeSchema_def
      AccessTokenSchema_def RefreshTokenSchema_def DeviceCodeSchema_def)

lemma known_model:
  "model \<in> set models \<Longrightarrow>
     model = ''Client'' \<or> model = ''Session'' \<or> model = ''Grant'' \<or> model = ''Code''
     \<or> model = ''AccessToken'' \<or> model = ''RefreshToken'' \<or> model = ''DeviceCode''
     \<or> model = ''Interaction''"
  by (simp only: models_eq list.set insert_iff empty_iff simp_thms)

lemma known_cases:
  assumes "model \<in> set models"
  obtains "model = ''Client''" | "model = ''Session''" | "model = ''Grant''" | "model = ''Code''"
    | "model = ''AccessToken''" | "model = ''RefreshToken''" | "model = ''DeviceCode''"
    | "model = ''Interaction''"
  using known_model [OF assms] by (elim disjE)

lemma primary_is_column: "model \<in> set models \<Longrightarrow> primary_of model \<in> set (columns_of model)"
  by (erule known_cases) (simp_all add: primary_of_simps columns_of_simps)

lemma primary_is_varchar: "model \<in> set models \<Longrightarrow> type_of model (primary_of model) = ''varchar''"
  by (erule known_cases)
     (simp_all add: primary_of_simps type_of_def columns_list_simps ClientSchema_def
       SessionSchema_def GrantSchema_def CodeSchema_def AccessTokenSchema_def
       RefreshTokenSchema_def DeviceCodeSchema_def InteractionSchema_def)

lemma required_are_columns: "set (required_of model) \<subseteq> set (columns_of model)"
  by (auto simp: required_of_def columns_of_def)

lemma find_known:
  "model \<in> set models \<Longrightarrow> find model ident repo = Inr (findOne [(primary_of model, Str ident)] repo)"
  by (erule known_cases) (simp_all add: find_def primary_of_simps)

lemma find_unknown:
  "model \<notin> set models \<Longrightarrow> find model ident repo = Inl (UnknownModel model)"
  unfolding models_eq by (simp add: find_def)

lemma upsert_known:
  "model \<in> set models \<Longrightarrow> upsert coerce model ident payload expiresIn repo =
     (let merged = merge model (findOne_or_create model [(primary_of model, Str ident)] repo) payload
      in case save coerce model merged repo of
           Inl err \<Rightarrow> Inl err
         | Inr repo' \<Rightarrow> Inr (merged, repo'))"
  by (erule known_cases) (simp_all add: upsert_def primary_of_simps)

lemma upsert_unknown:
  "model \<notin> set models \<Longrightarrow> upsert coerce model ident payload expiresIn repo = Inl (UnknownModel model)"
  unfolding models_eq by (simp add: upsert_def)

lemma unknown_model:
  "model \<notin> set models \<Longrightarrow>
     model \<noteq> ''Client'' \<and> model \<noteq> ''Session'' \<and> model \<noteq> ''Grant'' \<and> model \<noteq> ''Code''
     \<and> model \<noteq> ''AccessToken'' \<and> model \<noteq> ''RefreshToken'' \<and> model \<noteq> ''DeviceCode''
     \<and> model \<noteq> ''Interaction''"
  by (simp only: models_eq list.set insert_iff empty_iff simp_thms de_Morgan_disj)

lemma matches_single [simp]: "matches [(k, v)] r \<longleftrightarrow> r k = Some v"
  by (simp add: matches_def)

lemma matches_pair [simp]: "matches [(k, v), (k', v')] r \<longleftrightarrow> r k = Some v \<and> r k' = Some v'"
  by (simp add: matches_def)

lemma findOne_None_iff: "findOne c repo = None \<longleftrightarrow> (\<forall>r \<in> set repo. \<not> matches c r)"
  by (auto simp: findOne_def find_None_iff)

lemma findOne_Some_D: "findOne c repo = Some e \<Longrightarrow> e \<in> set repo \<and> matches c e"
  by (auto simp: findOne_def find_Some_iff)

lemma findOne_delete: "findOne c (delete c repo) = None"
  by (simp add: findOne_None_iff delete_def)

lemma delete_idem: "delete c (delete c repo) = delete c repo"
  by (simp add: delete_def)


lemma rows_after_subset: "set (rows_after model c repo) \<subseteq> set repo"
  by (cases c)
     (auto simp: rows_or_def destroy_def consume_def destroyByGrantId_def revokeByGrantId_def
        delete_def)

lemma rows_after_all_subset: "set (rows_after_all model calls repo) \<subseteq> set repo"
  unfolding rows_after_all_def
proof (induction calls arbitrary: repo)
  case Nil
  show ?case by simp
next
  case (Cons c calls)
  have "set (fold (rows_after model) calls (rows_after model c repo)) \<subseteq> set (rows_after model c repo)"
    by (rule Cons.IH)
  also have "\<dots> \<subseteq> set repo"
    by (rule rows_after_subset)
  finally show ?case by simp
qed

text \<open>
  Rows that carry declared columns only never match criteria on another field, so a
  removal by such a field removes nothing: \<^verbatim>\<open>grantId\<close> is no column of the two token
  tables, and \<^verbatim>\<open>uid\<close> is a column of the Session and Interaction tables only.
\<close>

lemma delete_foreign_column:
  assumes "schema_rows model repo" and "k \<notin> set (columns_of model)"
  shows "delete [(k, v)] repo = repo"
proof -
  have "\<not> matches [(k, v)] r" if "r \<in> set repo" for r
  proof -
    from assms(1) that have "dom r \<subseteq> set (columns_of model)"
      by (simp add: schema_rows_def list_all_iff)
    with assms(2) have "r k = None" by blast
    then show ?thesis by simp
  qed
  then show ?thesis
    by (simp add: delete_def)
qed

lemma revokeByGrantId_removes_nothing:
  assumes "model = ''AccessToken'' \<or> model = ''RefreshToken''" and "schema_rows model repo"
  shows "revokeByGrantId model grantId repo = Inr repo"
  using assms(1)
  by (elim disjE)
     (simp_all add: revokeByGrantId_def delete_foreign_column [OF assms(2)] columns_of_simps)

lemma destroy_removes_nothing:
  assumes "model = ''Code'' \<or> model = ''Grant'' \<or> model = ''AccessToken'' \<or> model = ''RefreshToken''"
    and "schema_rows model repo"
  shows "destroy model ident repo = Inr repo"
  using assms(1)
  by (elim disjE)
     (simp_all add: destroy_def delete_foreign_column [OF assms(2)] columns_of_simps)

lemma destroy_by_uid:
  assumes "model = ''Session'' \<or> model = ''Interaction''"
  shows "\<exists>repo'. destroy model ident repo = Inr repo' \<and> find model ident repo' = Inr None"
  using assms
  by (elim disjE) (simp_all add: destroy_def find_def findOne_delete)

text \<open>
  Every table the adapter builds from the empty one has rows of declared columns only:
  \<^verbatim>\<open>upsert\<close> keeps the property, and so do the lookups and the removals.
\<close>

lemma schema_rows_empty: "schema_rows model []"
  by (simp add: schema_rows_def)

lemma schema_rows_subset: "schema_rows model repo \<Longrightarrow> set repo' \<subseteq> set repo \<Longrightarrow> schema_rows model repo'"
  by (auto simp: schema_rows_def list_all_iff)

lemma schema_rows_after: "schema_rows model repo \<Longrightarrow> schema_rows model (rows_after_all model calls repo)"
  by (rule schema_rows_subset [OF _ rows_after_all_subset])

lemma schema_rows_save:
  assumes "schema_rows model repo" and "dom entity \<subseteq> set (columns_of model)"
    and "save coerce model entity repo = Inr repo'"
  shows "schema_rows model repo'"
proof -
  have w: "dom (written coerce model entity) \<subseteq> set (columns_of model)"
    using assms(2) by (auto simp: written_def)
  have u: "dom (updated coerce model entity r) \<subseteq> set (columns_of model)"
    if "dom r \<subseteq> set (columns_of model)" for r
    using assms(2) that by (fastforce simp: updated_def dom_def split: option.splits if_splits)
  have rows: "\<forall>r \<in> set repo. dom r \<subseteq> set (columns_of model)"
    using assms(1) by (simp add: schema_rows_def list_all_iff)
  let ?key = "written coerce model entity (primary_of model)"
  consider (update) "repo' = map (\<lambda>r. if r (primary_of model) = ?key
                                        then updated coerce model entity r else r) repo"
    | (insert) "repo' = repo @ [written coerce model entity]"
    using assms(3) by (auto simp: save_def Let_def split: if_splits option.splits)
  then have "\<forall>r \<in> set repo'. dom r \<subseteq> set (columns_of model)"
  proof cases
    case update
    show ?thesis
      unfolding update using rows u by (simp add: ball_Un)
  next
    case insert
    show ?thesis
      unfolding insert using rows w by simp
  qed
  then show ?thesis
    by (simp add: schema_rows_def list_all_iff)
qed

lemma schema_rows_upsert:
  assumes "schema_rows model repo"
    and "upsert coerce model ident payload expiresIn repo = Inr (entity, repo')"
  shows "schema_rows model repo'"
proof (cases "model \<in> set models")
  case False
  with assms(2) show ?thesis
    by (simp add: upsert_unknown)
next
  case True
  let ?old = "findOne_or_create model [(primary_of model, Str ident)] repo"
  have "dom ?old \<subseteq> set (columns_of model)"
  proof (cases "findOne [(primary_of model, Str ident)] repo")
    case None
    then show ?thesis
      by (auto simp: findOne_or_create_def create_def restrict_map_def split: if_splits)
  next
    case (Some e)
    with assms(1) findOne_Some_D [OF Some] show ?thesis
      by (auto simp: findOne_or_create_def schema_rows_def list_all_iff)
  qed
  then have d: "dom (merge model ?old payload) \<subseteq> set (columns_of model)"
    by (auto simp: merge_def restrict_map_def split: if_splits)
  have "save coerce model (merge model ?old payload) repo = Inr repo'"
    using assms(2) by (auto simp: upsert_known [OF True] Let_def split: sum.splits)
  then show ?thesis
    by (rule schema_rows_save [OF assms(1) d])
qed


section \<open>Lookups after an upsert\<close>

lemma findOne_key: "findOne [(k, v)] repo = List.find (\<lambda>r. r k = Some v) repo"
  by (simp add: findOne_def matches_def [abs_def])

lemma findOne_pair:
  "findOne [(k, v), (k', v')] repo = List.find (\<lambda>r. r k = Some v \<and> r k' = Some v') repo"
  by (simp add: findOne_def matches_def [abs_def])

lemma create_key:
  "model \<in> set models \<Longrightarrow> create model [(primary_of model, v)] = [primary_of model \<mapsto> v]"
  using primary_is_column [of model]
  by (auto simp: create_def restrict_map_def fun_eq_iff)

lemma find_append_new:
  assumes "Q m" and "\<forall>r \<in> set repo. \<not> Q r"
  shows "List.find Q (repo @ [m]) = Some m"
  using assms by (induction repo) simp_all

lemma find_updated:
  assumes "List.find P repo = Some r0" and "f r0 = m" and "Q m"
    and "\<forall>r \<in> set repo. Q r \<longrightarrow> P r"
  shows "List.find Q (map (\<lambda>r. if P r then f r else r) repo) = Some m"
  using assms by (induction repo) (auto split: if_splits)

text \<open>The entity an upsert works on is the stored row, or a fresh shell with the key.\<close>

lemma findOne_or_create_key:
  assumes "model \<in> set models"
  shows "findOne_or_create model [(primary_of model, v)] repo (primary_of model) = Some v"
proof (cases "findOne [(primary_of model, v)] repo")
  case None
  then show ?thesis
    by (simp add: findOne_or_create_def create_key [OF assms])
next
  case (Some e)
  then show ?thesis
    using findOne_Some_D [OF Some] by (simp add: findOne_or_create_def)
qed

lemma merged_key:
  assumes "model \<in> set models" and "key_kept model ident payload"
  shows "merge model (findOne_or_create model [(primary_of model, Str ident)] repo) payload
           (primary_of model) = Some (Str ident)"
  using assms(2) findOne_or_create_key [OF assms(1), of "Str ident" repo]
    primary_is_column [OF assms(1)]
  by (auto simp: merge_def key_kept_def map_add_Some_iff)

lemma typed_fits:
  assumes "typed model payload" and "k \<in> set (columns_of model)" and "payload k = Some v"
  shows "fits (type_of model k) v"
  using assms by (auto simp: typed_def list_all_iff split: option.splits)

lemma stored_fits: "fits t v \<Longrightarrow> stored coerce t v = v"
  by (simp add: stored_def)

lemma written_fits:
  assumes "\<And>k v. entity k = Some v \<Longrightarrow> fits (type_of model k) v"
  shows "written coerce model entity = entity"
proof
  fix k
  show "written coerce model entity k = entity k"
    using assms [of k] by (cases "entity k") (simp_all add: written_def stored_fits)
qed

lemma written_key:
  assumes "model \<in> set models" and "entity (primary_of model) = Some (Str ident)"
  shows "written coerce model entity (primary_of model) = Some (Str ident)"
  using assms by (simp add: written_def stored_def fits_def primary_is_varchar)

text \<open>
  The central fact: for a typed and complete payload that keeps the key, \<^verbatim>\<open>upsert\<close>
  succeeds, returns the merged entity, and that entity is the first row of the new table
  to satisfy any property it has and no row stored under another key had.
\<close>

lemma upsert_stored:
  assumes known: "model \<in> set models"
    and kk: "key_kept model ident payload"
    and ty: "typed model payload"
    and co: "complete model ident payload repo"
  shows "\<exists>repo'.
           upsert coerce model ident payload expiresIn repo
             = Inr (findOne_or_create model [(primary_of model, Str ident)] repo
                      ++ (payload |` set (columns_of model)), repo')
           \<and> (\<forall>Q. Q (findOne_or_create model [(primary_of model, Str ident)] repo
                        ++ (payload |` set (columns_of model)))
                  \<longrightarrow> (\<forall>r \<in> set repo. Q r \<longrightarrow> r (primary_of model) = Some (Str ident))
                  \<longrightarrow> List.find Q repo'
                        = Some (findOne_or_create model [(primary_of model, Str ident)] repo
                                  ++ (payload |` set (columns_of model))))"
proof -
  let ?pk = "primary_of model"
  let ?old = "findOne_or_create model [(?pk, Str ident)] repo"
  let ?p = "payload |` set (columns_of model)"
  define m where "m = ?old ++ ?p"
  have key: "m ?pk = Some (Str ident)"
    using merged_key [OF known kk, of repo] by (simp add: merge_def m_def)
  have wkey: "written coerce model m ?pk = Some (Str ident)"
    using written_key [of model m ident coerce] known key by simp
  have pfits: "fits (type_of model k) v" if "?p k = Some v" for k v
  proof -
    from that have "k \<in> set (columns_of model)" "payload k = Some v"
      by (auto simp: restrict_map_def split: if_splits)
    then show ?thesis
      by (rule typed_fits [OF ty])
  qed
  have "\<exists>repo'. save coerce model m repo = Inr repo'
          \<and> (\<forall>Q. Q m \<longrightarrow> (\<forall>r \<in> set repo. Q r \<longrightarrow> r ?pk = Some (Str ident))
                \<longrightarrow> List.find Q repo' = Some m)"
  proof (cases "findOne [(?pk, Str ident)] repo")
    case None
    then have no: "\<forall>r \<in> set repo. r ?pk \<noteq> Some (Str ident)"
      by (simp add: findOne_None_iff)
    have old: "?old = [?pk \<mapsto> Str ident]"
      by (simp add: findOne_or_create_def None create_key [OF known])
    have "fits (type_of model k) v" if "m k = Some v" for k v
    proof (cases "?p k")
      case None
      with that old have "k = ?pk" "v = Str ident"
        by (auto simp: m_def map_add_def split: if_splits)
      then show ?thesis
        by (simp add: primary_is_varchar [OF known] fits_def)
    next
      case (Some u)
      with that have "u = v"
        by (simp add: m_def map_add_def)
      with Some show ?thesis
        by (simp add: pfits)
    qed
    then have w: "written coerce model m = m"
      by (rule written_fits)
    have "m k \<noteq> None" if "k \<in> set (required_of model)" for k
    proof (cases "k = ?pk")
      case True
      with key show ?thesis by simp
    next
      case False
      with co None that have "payload k \<noteq> None"
        by (auto simp: complete_def list_all_iff)
      moreover have "k \<in> set (columns_of model)"
        using that required_are_columns by blast
      ultimately show ?thesis
        by (auto simp: m_def restrict_map_def)
    qed
    then have full: "List.find (\<lambda>k. m k = None) (required_of model) = None"
      by (simp add: find_None_iff)
    have ex: "\<not> list_ex (\<lambda>r. r ?pk = Some (Str ident)) repo"
      using no by (simp add: list_ex_iff)
    have s: "save coerce model m repo = Inr (repo @ [m])"
      by (simp only: save_def Let_def wkey ex full if_False option.simps, simp only: w)
    have "List.find Q (repo @ [m]) = Some m"
      if "Q m" "\<forall>r \<in> set repo. Q r \<longrightarrow> r ?pk = Some (Str ident)" for Q
      using that no by (intro find_append_new) auto
    with s show ?thesis
      by simp
  next
    case (Some r0)
    then have r0: "r0 \<in> set repo" "r0 ?pk = Some (Str ident)"
      using findOne_Some_D [OF Some] by simp_all
    have old: "?old = r0"
      by (simp add: findOne_or_create_def Some)
    have first: "List.find (\<lambda>r. r ?pk = Some (Str ident)) repo = Some r0"
      using Some by (simp add: findOne_key)
    have u: "updated coerce model m r0 = m"
    proof
      fix k
      show "updated coerce model m r0 k = m k"
      proof (cases "?p k")
        case None
        then show ?thesis
          by (cases "r0 k") (simp_all add: updated_def m_def old map_add_def)
      next
        case (Some v)
        then show ?thesis
          by (simp add: updated_def m_def old map_add_def stored_fits [OF pfits [OF Some]])
      qed
    qed
    have ex: "list_ex (\<lambda>r. r ?pk = Some (Str ident)) repo"
      using r0 by (auto simp: list_ex_iff)
    have s: "save coerce model m repo
               = Inr (map (\<lambda>r. if r ?pk = Some (Str ident)
                               then updated coerce model m r else r) repo)"
      by (simp only: save_def Let_def wkey ex if_True)
    have "List.find Q (map (\<lambda>r. if r ?pk = Some (Str ident)
                                 then updated coerce model m r else r) repo) = Some m"
      if "Q m" "\<forall>r \<in> set repo. Q r \<longrightarrow> r ?pk = Some (Str ident)" for Q
      using first u that by (rule find_updated)
    with s show ?thesis
      by simp
  qed
  then obtain repo' where
    s: "save coerce model m repo = Inr repo'"
    and f: "\<forall>Q. Q m \<longrightarrow> (\<forall>r \<in> set repo. Q r \<longrightarrow> r ?pk = Some (Str ident))
              \<longrightarrow> List.find Q repo' = Some m"
    by blast
  have "upsert coerce model ident payload expiresIn repo = Inr (m, repo')"
    using s by (simp add: upsert_known [OF known] Let_def merge_def m_def)
  with f show ?thesis
    unfolding m_def by blast
qed

text \<open>A new record whose payload lacks a column that is \<^verbatim>\<open>NOT NULL\<close> is rejected.\<close>

lemma upsert_rejected:
  assumes known: "model \<in> set models"
    and new: "findOne [(primary_of model, Str ident)] repo = None"
    and kk: "key_kept model ident payload"
    and missing: "k \<in> set (required_of model)" "k \<noteq> primary_of model" "payload k = None"
  shows "\<exists>k'. upsert coerce model ident payload expiresIn repo = Inl (NotNullConstraint k')"
proof -
  let ?pk = "primary_of model"
  let ?m = "merge model (findOne_or_create model [(?pk, Str ident)] repo) payload"
  have key: "?m ?pk = Some (Str ident)"
    by (rule merged_key [OF known kk])
  have wkey: "written coerce model ?m ?pk = Some (Str ident)"
    using written_key [of model ?m ident coerce] known key by simp
  have no: "\<forall>r \<in> set repo. r ?pk \<noteq> Some (Str ident)"
    using new by (simp add: findOne_None_iff)
  have "(payload |` set (columns_of model)) k = None"
    using missing(3) by (simp add: restrict_map_def)
  then have "?m k = None"
    using missing(2) by (simp add: merge_def findOne_or_create_def new create_key [OF known])
  with missing(1) have "List.find (\<lambda>k. ?m k = None) (required_of model) \<noteq> None"
    by (auto simp: find_None_iff)
  then obtain k' where "List.find (\<lambda>k. ?m k = None) (required_of model) = Some k'"
    by blast
  then have "save coerce model ?m repo = Inl (NotNullConstraint k')"
    using no by (simp add: save_def Let_def wkey list_ex_iff)
  then show ?thesis
    by (auto simp: upsert_known [OF known] Let_def)
qed

lemma upsert_then_find:
  assumes "model \<in> set models" and "key_kept model ident payload"
    and "typed model payload" and "complete model ident payload repo"
  shows "\<exists>entity repo'. upsert coerce model ident payload expiresIn repo = Inr (entity, repo')
           \<and> entity = findOne_or_create model [(primary_of model, Str ident)] repo
                        ++ (payload |` set (columns_of model))
           \<and> find model ident repo' = Inr (Some entity)"
proof -
  let ?m = "findOne_or_create model [(primary_of model, Str ident)] repo
              ++ (payload |` set (columns_of model))"
  obtain repo' where
    u: "upsert coerce model ident payload expiresIn repo = Inr (?m, repo')"
    and f: "\<forall>Q. Q ?m \<longrightarrow> (\<forall>r \<in> set repo. Q r \<longrightarrow> r (primary_of model) = Some (Str ident))
              \<longrightarrow> List.find Q repo' = Some ?m"
    using upsert_stored [OF assms, of coerce expiresIn] by blast
  have "?m (primary_of model) = Some (Str ident)"
    using merged_key [OF assms(1,2), of repo] by (simp add: merge_def)
  with f have "List.find (\<lambda>r. r (primary_of model) = Some (Str ident)) repo' = Some ?m"
    by simp
  then have "find model ident repo' = Inr (Some ?m)"
    by (simp add: find_known [OF assms(1)] findOne_key)
  with u show ?thesis
    by blast
qed

text \<open>
  A record stored in an empty table survives a removal of the adapter that goes by a
  field its schema does not declare.
\<close>

lemma token_outlives_revocation:
  assumes m: "model = ''AccessToken'' \<or> model = ''RefreshToken''"
    and kk: "key_kept model ident payload" and ty: "typed model payload"
    and co: "complete model ident payload []"
  shows "case upsert coerce model ident payload expiresIn [] of
           Inl err \<Rightarrow> False
         | Inr (token, repo) \<Rightarrow>
             token ''grantId'' = None
             \<and> revokeByGrantId model grantId repo = Inr repo
             \<and> find model ident repo = Inr (Some token)"
proof -
  have known: "model \<in> set models"
    using m by (elim disjE) (simp_all add: models_eq)
  obtain token repo where
    u: "upsert coerce model ident payload expiresIn [] = Inr (token, repo)"
    and e: "token = findOne_or_create model [(primary_of model, Str ident)] []
                      ++ (payload |` set (columns_of model))"
    and f: "find model ident repo = Inr (Some token)"
    using upsert_then_find [OF known kk ty co, of coerce expiresIn] by blast
  have "schema_rows model repo"
    by (rule schema_rows_upsert [OF schema_rows_empty u])
  then have r: "revokeByGrantId model grantId repo = Inr repo"
    by (rule revokeByGrantId_removes_nothing [OF m])
  have g: "token ''grantId'' = None"
    using m
    by (elim disjE)
       (simp_all add: e findOne_or_create_def findOne_def create_def columns_of_simps
         primary_of_simps)
  show ?thesis
    by (simp add: u g r f)
qed

lemma record_outlives_destroy:
  assumes m: "model = ''Code'' \<or> model = ''Grant'' \<or> model = ''AccessToken''
                \<or> model = ''RefreshToken''"
    and kk: "key_kept model ident payload" and ty: "typed model payload"
    and co: "complete model ident payload []"
  shows "case upsert coerce model ident payload expiresIn [] of
           Inl err \<Rightarrow> False
         | Inr (entity, repo) \<Rightarrow>
             destroy model ident repo = Inr repo
             \<and> find model ident repo = Inr (Some entity)"
proof -
  have known: "model \<in> set models"
    using m by (elim disjE) (simp_all add: models_eq)
  obtain entity repo where
    u: "upsert coerce model ident payload expiresIn [] = Inr (entity, repo)"
    and f: "find model ident repo = Inr (Some entity)"
    using upsert_then_find [OF known kk ty co, of coerce expiresIn] by blast
  have "schema_rows model repo"
    by (rule schema_rows_upsert [OF schema_rows_empty u])
  then have "destroy model ident repo = Inr repo"
    by (rule destroy_removes_nothing [OF m])
  then show ?thesis
    by (simp add: u f)
qed


section \<open>Revocation by grant\<close>

text \<open>
  C1, which the code does not meet. An access token and a refresh token are stored with
  a payload that names their grant \<^verbatim>\<open>g1\<close>. The token schemas declare no \<^verbatim>\<open>grantId\<close>
  column, so the stored token carries no grant reference, \<^verbatim>\<open>revokeByGrantId(g1)\<close>
  removes nothing and \<^verbatim>\<open>find\<close> still returns the token. The same holds on every table
  the adapter builds (\<open>revokeByGrantId_removes_nothing\<close>, \<open>schema_rows_upsert\<close>).
\<close>

theorem revokeByGrantId_leaves_tokens:
  "(case upsert coerce ''AccessToken'' ''t1''
           [''access_token'' \<mapsto> Str ''t1'', ''client_id'' \<mapsto> Str ''client_app'',
            ''account_id'' \<mapsto> Str ''user1'', ''scope'' \<mapsto> Str ''openid'',
            ''expires_at'' \<mapsto> Num 3600, ''grantId'' \<mapsto> Str ''g1''] (Some 3600) [] of
      Inl err \<Rightarrow> False
    | Inr (token, repo) \<Rightarrow>
        token ''grantId'' = None
        \<and> revokeByGrantId ''AccessToken'' ''g1'' repo = Inr repo
        \<and> find ''AccessToken'' ''t1'' repo = Inr (Some token))
   \<and> (case upsert coerce ''RefreshToken'' ''r1''
           [''refresh_token'' \<mapsto> Str ''r1'', ''client_id'' \<mapsto> Str ''client_app'',
            ''account_id'' \<mapsto> Str ''user1'', ''scope'' \<mapsto> Str ''openid'',
            ''expires_at'' \<mapsto> Num 3600, ''grantId'' \<mapsto> Str ''g1''] None [] of
      Inl err \<Rightarrow> False
    | Inr (token, repo) \<Rightarrow>
        token ''grantId'' = None
        \<and> revokeByGrantId ''RefreshToken'' ''g1'' repo = Inr repo
        \<and> find ''RefreshToken'' ''r1'' repo = Inr (Some token))"
proof
  show "case upsert coerce ''AccessToken'' ''t1''
           [''access_token'' \<mapsto> Str ''t1'', ''client_id'' \<mapsto> Str ''client_app'',
            ''account_id'' \<mapsto> Str ''user1'', ''scope'' \<mapsto> Str ''openid'',
            ''expires_at'' \<mapsto> Num 3600, ''grantId'' \<mapsto> Str ''g1''] (Some 3600) [] of
      Inl err \<Rightarrow> False
    | Inr (token, repo) \<Rightarrow>
        token ''grantId'' = None
        \<and> revokeByGrantId ''AccessToken'' ''g1'' repo = Inr repo
        \<and> find ''AccessToken'' ''t1'' repo = Inr (Some token)"
    by (rule token_outlives_revocation)
       (simp_all add: key_kept_def typed_def complete_def primary_of_simps columns_of_simps
         required_of_simps type_of_simps fits_def)
next
  show "case upsert coerce ''RefreshToken'' ''r1''
           [''refresh_token'' \<mapsto> Str ''r1'', ''client_id'' \<mapsto> Str ''client_app'',
            ''account_id'' \<mapsto> Str ''user1'', ''scope'' \<mapsto> Str ''openid'',
            ''expires_at'' \<mapsto> Num 3600, ''grantId'' \<mapsto> Str ''g1''] None [] of
      Inl err \<Rightarrow> False
    | Inr (token, repo) \<Rightarrow>
        token ''grantId'' = None
        \<and> revokeByGrantId ''RefreshToken'' ''g1'' repo = Inr repo
        \<and> find ''RefreshToken'' ''r1'' repo = Inr (Some token)"
    by (rule token_outlives_revocation)
       (simp_all add: key_kept_def typed_def complete_def primary_of_simps columns_of_simps
         required_of_simps type_of_simps fits_def)
qed


section \<open>Consuming an authorization code\<close>

text \<open>
  C2. On the Code adapter, \<^verbatim>\<open>consume(id)\<close> never fails; after it \<^verbatim>\<open>find(id)\<close> returns
  not-found; a second \<^verbatim>\<open>consume(id)\<close> succeeds and changes nothing; and the code stays
  not-found after any further sequence of lookups and removals on the adapter (only a
  new \<^verbatim>\<open>upsert\<close> under the same id could store it again).
\<close>

theorem consume_spends_code:
  "\<exists>repo'. consume ''Code'' ident repo = Inr repo'
      \<and> find ''Code'' ident repo' = Inr None
      \<and> consume ''Code'' ident repo' = Inr repo'
      \<and> (\<forall>calls. find ''Code'' ident (rows_after_all ''Code'' calls repo') = Inr None)"
proof -
  let ?repo' = "delete [(''code'', Str ident)] repo"
  have absent: "\<forall>r \<in> set ?repo'. \<not> matches [(''code'', Str ident)] r"
    by (simp add: delete_def)
  have later: "find ''Code'' ident (rows_after_all ''Code'' calls ?repo') = Inr None" for calls
  proof -
    have "\<forall>r \<in> set (rows_after_all ''Code'' calls ?repo'). \<not> matches [(''code'', Str ident)] r"
      using absent rows_after_all_subset [of "''Code''" calls ?repo'] by blast
    then show ?thesis
      by (simp add: find_def findOne_None_iff)
  qed
  have "consume ''Code'' ident repo = Inr ?repo'"
    by (simp add: consume_def)
  moreover have "find ''Code'' ident ?repo' = Inr None"
    by (simp add: find_def findOne_delete)
  moreover have "consume ''Code'' ident ?repo' = Inr ?repo'"
    by (simp add: consume_def delete_idem)
  ultimately show ?thesis
    using later by blast
qed


section \<open>Expiry\<close>

text \<open>
  C3, as the code has it. The adapter has no expiry: \<^verbatim>\<open>upsert\<close> ignores \<^verbatim>\<open>expiresIn\<close> (the
  result and the rows are those of the call without it, whatever the kind, the payload
  and the table), and for each of the eight kinds and a typed, complete payload that
  keeps the key, \<^verbatim>\<open>find(id)\<close> after \<^verbatim>\<open>upsert(id, payload, expiresIn)\<close> returns the stored
  entity whatever the TTL. No method reads a clock and the rows change through the
  methods only, so this is the lookup at any later time.
\<close>

theorem upsert_ignores_expiresIn:
  "upsert coerce model ident payload expiresIn repo = upsert coerce model ident payload None repo
   \<and> (model \<in> set models \<and> key_kept model ident payload \<and> typed model payload
        \<and> complete model ident payload repo \<longrightarrow>
        (\<exists>entity repo'. upsert coerce model ident payload expiresIn repo = Inr (entity, repo')
           \<and> find model ident repo' = Inr (Some entity)))"
proof
  show "upsert coerce model ident payload expiresIn repo
          = upsert coerce model ident payload None repo"
    by (simp add: upsert_def)
next
  show "model \<in> set models \<and> key_kept model ident payload \<and> typed model payload
        \<and> complete model ident payload repo \<longrightarrow>
        (\<exists>entity repo'. upsert coerce model ident payload expiresIn repo = Inr (entity, repo')
           \<and> find model ident repo' = Inr (Some entity))"
    using upsert_then_find [of model ident payload repo coerce expiresIn] by blast
qed

theorem upsert_ignores_expiresIn_witness:
  "\<forall>coerce.
     (''DeviceCode'' \<in> set models
      \<and> key_kept ''DeviceCode'' ''d1''
           [''user_code'' \<mapsto> Str ''ABCD'', ''client_id'' \<mapsto> Str ''client_app'',
            ''scope'' \<mapsto> Str ''openid'', ''expires_at'' \<mapsto> Num 600]
      \<and> typed ''DeviceCode''
           [''user_code'' \<mapsto> Str ''ABCD'', ''client_id'' \<mapsto> Str ''client_app'',
            ''scope'' \<mapsto> Str ''openid'', ''expires_at'' \<mapsto> Num 600]
      \<and> complete ''DeviceCode'' ''d1''
           [''user_code'' \<mapsto> Str ''ABCD'', ''client_id'' \<mapsto> Str ''client_app'',
            ''scope'' \<mapsto> Str ''openid'', ''expires_at'' \<mapsto> Num 600] [])
     \<and> upsert coerce ''DeviceCode'' ''d1''
           [''user_code'' \<mapsto> Str ''ABCD'', ''client_id'' \<mapsto> Str ''client_app'',
            ''scope'' \<mapsto> Str ''openid'', ''expires_at'' \<mapsto> Num 600] (Some 600) []
         = upsert coerce ''DeviceCode'' ''d1''
             [''user_code'' \<mapsto> Str ''ABCD'', ''client_id'' \<mapsto> Str ''client_app'',
              ''scope'' \<mapsto> Str ''openid'', ''expires_at'' \<mapsto> Num 600] None []
     \<and> (case upsert coerce ''DeviceCode'' ''d1''
                [''user_code'' \<mapsto> Str ''ABCD'', ''client_id'' \<mapsto> Str ''client_app'',
                 ''scope'' \<mapsto> Str ''openid'', ''expires_at'' \<mapsto> Num 600] (Some 600) [] of
           Inl err \<Rightarrow> False
         | Inr (entity, repo') \<Rightarrow> find ''DeviceCode'' ''d1'' repo' = Inr (Some entity))"
proof
  fix coerce :: "string \<Rightarrow> val \<Rightarrow> val"
  let ?payload = "[''user_code'' \<mapsto> Str ''ABCD'', ''client_id'' \<mapsto> Str ''client_app'',
                   ''scope'' \<mapsto> Str ''openid'', ''expires_at'' \<mapsto> Num 600]"
  have h1: "''DeviceCode'' \<in> set models"
    and h2: "key_kept ''DeviceCode'' ''d1'' ?payload"
    and h3: "typed ''DeviceCode'' ?payload"
    and h4: "complete ''DeviceCode'' ''d1'' ?payload []"
    by (simp_all add: models_eq key_kept_def typed_def complete_def primary_of_simps
        columns_of_simps required_of_simps type_of_simps fits_def)
  note t = upsert_ignores_expiresIn [of coerce "''DeviceCode''" "''d1''" ?payload "Some 600" "[]"]
  have eq: "upsert coerce ''DeviceCode'' ''d1'' ?payload (Some 600) []
              = upsert coerce ''DeviceCode'' ''d1'' ?payload None []"
    by (rule t [THEN conjunct1])
  obtain entity repo' where
    u: "upsert coerce ''DeviceCode'' ''d1'' ?payload (Some 600) [] = Inr (entity, repo')"
    and f: "find ''DeviceCode'' ''d1'' repo' = Inr (Some entity)"
    using t [THEN conjunct2] h1 h2 h3 h4 by blast
  have c: "case upsert coerce ''DeviceCode'' ''d1'' ?payload (Some 600) [] of
             Inl err \<Rightarrow> False
           | Inr (entity, repo') \<Rightarrow> find ''DeviceCode'' ''d1'' repo' = Inr (Some entity)"
    unfolding u using f by simp
  show "(''DeviceCode'' \<in> set models \<and> key_kept ''DeviceCode'' ''d1'' ?payload
           \<and> typed ''DeviceCode'' ?payload \<and> complete ''DeviceCode'' ''d1'' ?payload [])
     \<and> upsert coerce ''DeviceCode'' ''d1'' ?payload (Some 600) []
         = upsert coerce ''DeviceCode'' ''d1'' ?payload None []
     \<and> (case upsert coerce ''DeviceCode'' ''d1'' ?payload (Some 600) [] of
           Inl err \<Rightarrow> False
         | Inr (entity, repo') \<Rightarrow> find ''DeviceCode'' ''d1'' repo' = Inr (Some entity))"
    by (intro conjI) (fact h1 h2 h3 h4 eq c)+
qed

text \<open>
  C3 as the specification states it fails: an access token stored with a TTL of one
  second and an \<^verbatim>\<open>expires_at\<close> of 1 is returned by \<^verbatim>\<open>find\<close> on the rows \<^verbatim>\<open>upsert\<close> left, which
  are the rows at every later time until a method removes the record; the lookups that
  may happen in between leave them as they are.
\<close>

theorem expired_token_found_counterexample:
  "\<forall>coerce.
     (case upsert coerce ''AccessToken'' ''t1''
             [''access_token'' \<mapsto> Str ''t1'', ''client_id'' \<mapsto> Str ''client_app'',
              ''account_id'' \<mapsto> Str ''user1'', ''scope'' \<mapsto> Str ''openid'',
              ''expires_at'' \<mapsto> Num 1] (Some 1) [] of
        Inl err \<Rightarrow> False
      | Inr (token, repo') \<Rightarrow>
          find ''AccessToken'' ''t1'' repo' = Inr (Some token)
          \<and> find ''AccessToken'' ''t1'' repo' \<noteq> Inr None
          \<and> find ''AccessToken'' ''t1''
               (rows_after_all ''AccessToken''
                  [Find ''t1'', FindByUid ''t1'', FindByUserCode ''t1''] repo')
              = Inr (Some token))"
proof
  fix coerce :: "string \<Rightarrow> val \<Rightarrow> val"
  let ?payload = "[''access_token'' \<mapsto> Str ''t1'', ''client_id'' \<mapsto> Str ''client_app'',
                   ''account_id'' \<mapsto> Str ''user1'', ''scope'' \<mapsto> Str ''openid'',
                   ''expires_at'' \<mapsto> Num 1]"
  have "''AccessToken'' \<in> set models" "key_kept ''AccessToken'' ''t1'' ?payload"
    "typed ''AccessToken'' ?payload" "complete ''AccessToken'' ''t1'' ?payload []"
    by (simp_all add: models_eq key_kept_def typed_def complete_def primary_of_simps
        columns_of_simps required_of_simps type_of_simps fits_def)
  then obtain token repo' where
    "upsert coerce ''AccessToken'' ''t1'' ?payload (Some 1) [] = Inr (token, repo')"
    "find ''AccessToken'' ''t1'' repo' = Inr (Some token)"
    using upsert_then_find [of "''AccessToken''" "''t1''" ?payload "[]" coerce "Some 1"] by blast
  then show "case upsert coerce ''AccessToken'' ''t1'' ?payload (Some 1) [] of
        Inl err \<Rightarrow> False
      | Inr (token, repo') \<Rightarrow>
          find ''AccessToken'' ''t1'' repo' = Inr (Some token)
          \<and> find ''AccessToken'' ''t1'' repo' \<noteq> Inr None
          \<and> find ''AccessToken'' ''t1''
               (rows_after_all ''AccessToken''
                  [Find ''t1'', FindByUid ''t1'', FindByUserCode ''t1''] repo')
              = Inr (Some token)"
    by (simp add: rows_after_all_def)
qed


section \<open>Destroying a record\<close>

text \<open>
  C4, which the code does not meet. \<^verbatim>\<open>destroy(id)\<close> removes by the field \<^verbatim>\<open>uid\<close> for
  all six kinds, which is the key of Session and Interaction only (for these two it
  works, \<open>destroy_by_uid\<close>). An authorization code and a grant stored under their own
  key survive \<^verbatim>\<open>destroy\<close> of that key: the rows are unchanged and \<^verbatim>\<open>find\<close> still returns
  the record. The same holds for the two token kinds and on every table the adapter
  builds (\<open>destroy_removes_nothing\<close>).
\<close>

theorem destroy_misses_own_key:
  "(case upsert coerce ''Code'' ''c1''
           [''code'' \<mapsto> Str ''c1'', ''client_id'' \<mapsto> Str ''client_app'',
            ''redirect_uri'' \<mapsto> Str ''https://localhost:3000/callback'',
            ''response_type'' \<mapsto> Str ''code'', ''scope'' \<mapsto> Str ''openid'',
            ''state'' \<mapsto> Str ''s'', ''code_challenge'' \<mapsto> Str ''x'',
            ''code_challenge_method'' \<mapsto> Str ''S256''] (Some 600) [] of
      Inl err \<Rightarrow> False
    | Inr (code, repo) \<Rightarrow>
        destroy ''Code'' ''c1'' repo = Inr repo
        \<and> find ''Code'' ''c1'' repo = Inr (Some code))
   \<and> (case upsert coerce ''Grant'' ''g1''
           [''id'' \<mapsto> Str ''g1'', ''accountId'' \<mapsto> Str ''user1'',
            ''claims'' \<mapsto> Arr [Str ''sub'']] None [] of
      Inl err \<Rightarrow> False
    | Inr (grant, repo) \<Rightarrow>
        destroy ''Grant'' ''g1'' repo = Inr repo
        \<and> find ''Grant'' ''g1'' repo = Inr (Some grant))"
proof
  show "case upsert coerce ''Code'' ''c1''
           [''code'' \<mapsto> Str ''c1'', ''client_id'' \<mapsto> Str ''client_app'',
            ''redirect_uri'' \<mapsto> Str ''https://localhost:3000/callback'',
            ''response_type'' \<mapsto> Str ''code'', ''scope'' \<mapsto> Str ''openid'',
            ''state'' \<mapsto> Str ''s'', ''code_challenge'' \<mapsto> Str ''x'',
            ''code_challenge_method'' \<mapsto> Str ''S256''] (Some 600) [] of
      Inl err \<Rightarrow> False
    | Inr (code, repo) \<Rightarrow>
        destroy ''Code'' ''c1'' repo = Inr repo
        \<and> find ''Code'' ''c1'' repo = Inr (Some code)"
    by (rule record_outlives_destroy)
       (simp_all add: key_kept_def typed_def complete_def primary_of_simps columns_of_simps
         required_of_simps type_of_simps fits_def)
next
  show "case upsert coerce ''Grant'' ''g1''
           [''id'' \<mapsto> Str ''g1'', ''accountId'' \<mapsto> Str ''user1'',
            ''claims'' \<mapsto> Arr [Str ''sub'']] None [] of
      Inl err \<Rightarrow> False
    | Inr (grant, repo) \<Rightarrow>
        destroy ''Grant'' ''g1'' repo = Inr repo
        \<and> find ''Grant'' ''g1'' repo = Inr (Some grant)"
    by (rule record_outlives_destroy)
       (simp_all add: key_kept_def typed_def complete_def primary_of_simps columns_of_simps
         required_of_simps type_of_simps fits_def)
qed


section \<open>Device codes\<close>

text \<open>
  C5, as the code has it. A device code stored by \<^verbatim>\<open>upsert(D, payload)\<close> with a typed,
  complete payload that keeps the key and has \<^verbatim>\<open>user_code\<close> U is returned by \<^verbatim>\<open>find(D)\<close>
  and by \<^verbatim>\<open>findByUidAndUserCode(D, U)\<close>. \<^verbatim>\<open>findByUserCode(U)\<close> returns a record whose
  user code is U: the oldest one, which is the stored record when no row stored before
  under another device code has the user code U. \<^verbatim>\<open>destroy(D)\<close> on the DeviceCode
  adapter removes nothing, so the rows, and with them the three lookups, are the same
  after it.
\<close>

theorem device_code_lookups:
  assumes uc: "payload ''user_code'' = Some (Str userCode)"
    and kk: "key_kept ''DeviceCode'' deviceCode payload"
    and ty: "typed ''DeviceCode'' payload"
    and co: "complete ''DeviceCode'' deviceCode payload repo"
  shows "\<exists>entity repo'.
           upsert coerce ''DeviceCode'' deviceCode payload expiresIn repo = Inr (entity, repo')
           \<and> entity ''device_code'' = Some (Str deviceCode)
           \<and> entity ''user_code'' = Some (Str userCode)
           \<and> find ''DeviceCode'' deviceCode repo' = Inr (Some entity)
           \<and> findByUidAndUserCode ''DeviceCode'' deviceCode userCode repo' = Inr (Some entity)
           \<and> (\<exists>first. findByUserCode ''DeviceCode'' userCode repo' = Inr (Some first)
                 \<and> first ''user_code'' = Some (Str userCode))
           \<and> ((\<forall>r \<in> set repo. r ''user_code'' = Some (Str userCode)
                   \<longrightarrow> r ''device_code'' = Some (Str deviceCode))
                \<longrightarrow> findByUserCode ''DeviceCode'' userCode repo' = Inr (Some entity))
           \<and> destroy ''DeviceCode'' deviceCode repo' = Inr repo'"
proof -
  have known: "''DeviceCode'' \<in> set models"
    by (simp add: models_eq)
  have pk: "primary_of ''DeviceCode'' = ''device_code''"
    by (simp add: primary_of_simps)
  define e where "e = findOne_or_create ''DeviceCode'' [(''device_code'', Str deviceCode)] repo
                        ++ (payload |` set (columns_of ''DeviceCode''))"
  obtain repo' where
    up: "upsert coerce ''DeviceCode'' deviceCode payload expiresIn repo = Inr (e, repo')"
    and found: "\<And>Q. Q e \<Longrightarrow>
                  \<forall>r \<in> set repo. Q r \<longrightarrow> r ''device_code'' = Some (Str deviceCode) \<Longrightarrow>
                  List.find Q repo' = Some e"
    using upsert_stored [OF known kk ty co, of coerce expiresIn]
    unfolding pk e_def by blast
  have key: "e ''device_code'' = Some (Str deviceCode)"
    using merged_key [OF known kk, of repo] by (simp add: pk merge_def e_def)
  have code: "e ''user_code'' = Some (Str userCode)"
    using uc by (simp add: e_def columns_of_simps)
  have f1: "find ''DeviceCode'' deviceCode repo' = Inr (Some e)"
    using found [of "\<lambda>r. r ''device_code'' = Some (Str deviceCode)"] key
    by (simp add: find_def findOne_key)
  have f2: "findByUidAndUserCode ''DeviceCode'' deviceCode userCode repo' = Inr (Some e)"
    using found [of "\<lambda>r. r ''device_code'' = Some (Str deviceCode)
                        \<and> r ''user_code'' = Some (Str userCode)"] key code
    by (simp add: findByUidAndUserCode_def findOne_pair)
  have f3: "\<exists>first. findByUserCode ''DeviceCode'' userCode repo' = Inr (Some first)
              \<and> first ''user_code'' = Some (Str userCode)"
  proof -
    have "findOne [(''device_code'', Str deviceCode)] repo' = Some e"
      using f1 by (simp add: find_def)
    then have mem: "e \<in> set repo'"
      by (rule findOne_Some_D [THEN conjunct1])
    have m: "matches [(''user_code'', Str userCode)] e"
      using code by (simp only: matches_single)
    have "findOne [(''user_code'', Str userCode)] repo' \<noteq> None"
      unfolding findOne_None_iff using m mem by blast
    then obtain first where fst: "findOne [(''user_code'', Str userCode)] repo' = Some first"
      by blast
    from findOne_Some_D [OF fst] have "first ''user_code'' = Some (Str userCode)"
      by simp
    with fst show ?thesis
      by (simp add: findByUserCode_def)
  qed
  have f4: "findByUserCode ''DeviceCode'' userCode repo' = Inr (Some e)"
    if "\<forall>r \<in> set repo. r ''user_code'' = Some (Str userCode)
          \<longrightarrow> r ''device_code'' = Some (Str deviceCode)"
    using found [of "\<lambda>r. r ''user_code'' = Some (Str userCode)"] code that
    by (simp add: findByUserCode_def findOne_key)
  have d: "destroy ''DeviceCode'' deviceCode repo' = Inr repo'"
    by (simp add: destroy_def)
  show ?thesis
  proof (rule exI [of _ e], rule exI [of _ repo'], intro conjI impI)
    show "upsert coerce ''DeviceCode'' deviceCode payload expiresIn repo = Inr (e, repo')"
      by (rule up)
    show "e ''device_code'' = Some (Str deviceCode)"
      by (rule key)
    show "e ''user_code'' = Some (Str userCode)"
      by (rule code)
    show "find ''DeviceCode'' deviceCode repo' = Inr (Some e)"
      by (rule f1)
    show "findByUidAndUserCode ''DeviceCode'' deviceCode userCode repo' = Inr (Some e)"
      by (rule f2)
    show "\<exists>first. findByUserCode ''DeviceCode'' userCode repo' = Inr (Some first)
            \<and> first ''user_code'' = Some (Str userCode)"
      by (rule f3)
    show "findByUserCode ''DeviceCode'' userCode repo' = Inr (Some e)"
      if "\<forall>r \<in> set repo. r ''user_code'' = Some (Str userCode)
            \<longrightarrow> r ''device_code'' = Some (Str deviceCode)"
      by (rule f4 [OF that])
    show "destroy ''DeviceCode'' deviceCode repo' = Inr repo'"
      by (rule d)
  qed
qed

theorem device_code_lookups_witness:
  "\<forall>coerce.
     [''user_code'' \<mapsto> Str ''ABCD'', ''client_id'' \<mapsto> Str ''client_app'',
      ''scope'' \<mapsto> Str ''openid'', ''expires_at'' \<mapsto> Num 600] ''user_code''
       = Some (Str ''ABCD'')
     \<and> key_kept ''DeviceCode'' ''d1''
          [''user_code'' \<mapsto> Str ''ABCD'', ''client_id'' \<mapsto> Str ''client_app'',
           ''scope'' \<mapsto> Str ''openid'', ''expires_at'' \<mapsto> Num 600]
     \<and> typed ''DeviceCode''
          [''user_code'' \<mapsto> Str ''ABCD'', ''client_id'' \<mapsto> Str ''client_app'',
           ''scope'' \<mapsto> Str ''openid'', ''expires_at'' \<mapsto> Num 600]
     \<and> complete ''DeviceCode'' ''d1''
          [''user_code'' \<mapsto> Str ''ABCD'', ''client_id'' \<mapsto> Str ''client_app'',
           ''scope'' \<mapsto> Str ''openid'', ''expires_at'' \<mapsto> Num 600] []
     \<and> (case upsert coerce ''DeviceCode'' ''d1''
                [''user_code'' \<mapsto> Str ''ABCD'', ''client_id'' \<mapsto> Str ''client_app'',
                 ''scope'' \<mapsto> Str ''openid'', ''expires_at'' \<mapsto> Num 600] None [] of
           Inl err \<Rightarrow> False
         | Inr (entity, repo') \<Rightarrow>
             find ''DeviceCode'' ''d1'' repo' = Inr (Some entity)
             \<and> findByUidAndUserCode ''DeviceCode'' ''d1'' ''ABCD'' repo' = Inr (Some entity)
             \<and> findByUserCode ''DeviceCode'' ''ABCD'' repo' = Inr (Some entity)
             \<and> destroy ''DeviceCode'' ''d1'' repo' = Inr repo')"
proof
  fix coerce :: "string \<Rightarrow> val \<Rightarrow> val"
  let ?payload = "[''user_code'' \<mapsto> Str ''ABCD'', ''client_id'' \<mapsto> Str ''client_app'',
                   ''scope'' \<mapsto> Str ''openid'', ''expires_at'' \<mapsto> Num 600]"
  have h1: "?payload ''user_code'' = Some (Str ''ABCD'')"
    and h2: "key_kept ''DeviceCode'' ''d1'' ?payload"
    and h3: "typed ''DeviceCode'' ?payload"
    and h4: "complete ''DeviceCode'' ''d1'' ?payload []"
    by (simp_all add: key_kept_def typed_def complete_def primary_of_simps
        columns_of_simps required_of_simps type_of_simps fits_def)
  obtain entity repo' where
    u: "upsert coerce ''DeviceCode'' ''d1'' ?payload None [] = Inr (entity, repo')"
    and f: "find ''DeviceCode'' ''d1'' repo' = Inr (Some entity)"
      "findByUidAndUserCode ''DeviceCode'' ''d1'' ''ABCD'' repo' = Inr (Some entity)"
      "findByUserCode ''DeviceCode'' ''ABCD'' repo' = Inr (Some entity)"
      "destroy ''DeviceCode'' ''d1'' repo' = Inr repo'"
    using device_code_lookups [OF h1 h2 h3 h4, of coerce None] by auto
  have c: "case upsert coerce ''DeviceCode'' ''d1'' ?payload None [] of
             Inl err \<Rightarrow> False
           | Inr (entity, repo') \<Rightarrow>
               find ''DeviceCode'' ''d1'' repo' = Inr (Some entity)
               \<and> findByUidAndUserCode ''DeviceCode'' ''d1'' ''ABCD'' repo' = Inr (Some entity)
               \<and> findByUserCode ''DeviceCode'' ''ABCD'' repo' = Inr (Some entity)
               \<and> destroy ''DeviceCode'' ''d1'' repo' = Inr repo'"
    unfolding u using f by simp
  show "?payload ''user_code'' = Some (Str ''ABCD'')
     \<and> key_kept ''DeviceCode'' ''d1'' ?payload
     \<and> typed ''DeviceCode'' ?payload
     \<and> complete ''DeviceCode'' ''d1'' ?payload []
     \<and> (case upsert coerce ''DeviceCode'' ''d1'' ?payload None [] of
           Inl err \<Rightarrow> False
         | Inr (entity, repo') \<Rightarrow>
             find ''DeviceCode'' ''d1'' repo' = Inr (Some entity)
             \<and> findByUidAndUserCode ''DeviceCode'' ''d1'' ''ABCD'' repo' = Inr (Some entity)
             \<and> findByUserCode ''DeviceCode'' ''ABCD'' repo' = Inr (Some entity)
             \<and> destroy ''DeviceCode'' ''d1'' repo' = Inr repo')"
    by (intro conjI) (fact h1 h2 h3 h4 c)+
qed

text \<open>
  C5 as the specification states it fails twice. Two device codes \<^verbatim>\<open>d1\<close> and \<^verbatim>\<open>d2\<close> are
  stored with the same user code: \<^verbatim>\<open>findByUserCode\<close> returns the first, so the second is
  not retrievable by its user code; and after \<^verbatim>\<open>destroy(d2)\<close> the lookups by device code
  still return the second.
\<close>

theorem device_code_survives_destroy_counterexample:
  "\<forall>coerce.
     (case upsert coerce ''DeviceCode'' ''d1''
             [''device_code'' \<mapsto> Str ''d1'', ''user_code'' \<mapsto> Str ''ABCD'',
              ''client_id'' \<mapsto> Str ''client_app'', ''scope'' \<mapsto> Str ''openid'',
              ''expires_at'' \<mapsto> Num 600] None [] of
        Inl err \<Rightarrow> False
      | Inr (first, repo1) \<Rightarrow>
          (case upsert coerce ''DeviceCode'' ''d2''
                  [''device_code'' \<mapsto> Str ''d2'', ''user_code'' \<mapsto> Str ''ABCD'',
                   ''client_id'' \<mapsto> Str ''client_app'', ''scope'' \<mapsto> Str ''openid'',
                   ''expires_at'' \<mapsto> Num 600] None repo1 of
             Inl err \<Rightarrow> False
           | Inr (second, repo2) \<Rightarrow>
               second ''device_code'' = Some (Str ''d2'')
               \<and> second ''user_code'' = Some (Str ''ABCD'')
               \<and> (case findByUserCode ''DeviceCode'' ''ABCD'' repo2 of
                     Inr (Some found) \<Rightarrow> found ''device_code'' = Some (Str ''d1'')
                   | _ \<Rightarrow> False)
               \<and> (case destroy ''DeviceCode'' ''d2'' repo2 of
                     Inl err \<Rightarrow> False
                   | Inr repo3 \<Rightarrow>
                       (case find ''DeviceCode'' ''d2'' repo3 of
                          Inr (Some found) \<Rightarrow> found ''device_code'' = Some (Str ''d2'')
                        | _ \<Rightarrow> False)
                       \<and> (case findByUidAndUserCode ''DeviceCode'' ''d2'' ''ABCD'' repo3 of
                            Inr (Some found) \<Rightarrow> found ''device_code'' = Some (Str ''d2'')
                          | _ \<Rightarrow> False))))"
  by (simp add: upsert_def findOne_or_create_def findOne_def create_def merge_def save_def
      written_def updated_def stored_def fits_def type_of_simps required_of_simps
      find_def findByUidAndUserCode_def findByUserCode_def destroy_def columns_of_simps
      primary_of_simps Let_def)


section \<open>What an upsert stores\<close>

text \<open>
  C6, as the code has it. For each of the eight kinds and a typed, complete payload that
  keeps the key, \<^verbatim>\<open>upsert(id, payload)\<close> succeeds and \<^verbatim>\<open>find(id)\<close> then returns the entity
  \<^verbatim>\<open>upsert\<close> returned. That entity has every payload field that is a declared column of
  the kind, with the payload's value; every other field is as in the record stored
  before (or in the fresh shell that has the key only): the merge is per column, and a
  payload field that is no column is not stored.
\<close>

theorem upsert_merges_columns:
  assumes "model \<in> set models" and "key_kept model ident payload"
    and "typed model payload" and "complete model ident payload repo"
  shows "\<exists>entity repo'. upsert coerce model ident payload expiresIn repo = Inr (entity, repo')
           \<and> find model ident repo' = Inr (Some entity)
           \<and> (\<forall>k v. k \<in> set (columns_of model) \<and> payload k = Some v \<longrightarrow> entity k = Some v)
           \<and> (\<forall>k. payload k = None \<or> k \<notin> set (columns_of model) \<longrightarrow>
                 entity k = (case find model ident repo of
                               Inr (Some old) \<Rightarrow> old k
                             | _ \<Rightarrow> [primary_of model \<mapsto> Str ident] k))"
proof -
  obtain entity repo' where
    u: "upsert coerce model ident payload expiresIn repo = Inr (entity, repo')"
    and e: "entity = findOne_or_create model [(primary_of model, Str ident)] repo
                       ++ (payload |` set (columns_of model))"
    and f: "find model ident repo' = Inr (Some entity)"
    using upsert_then_find [OF assms, of coerce expiresIn] by blast
  have new: "entity k = Some v" if "k \<in> set (columns_of model)" "payload k = Some v" for k v
    using that by (simp add: e)
  have old: "entity k = (case find model ident repo of
                           Inr (Some old) \<Rightarrow> old k
                         | _ \<Rightarrow> [primary_of model \<mapsto> Str ident] k)"
    if "payload k = None \<or> k \<notin> set (columns_of model)" for k
  proof -
    have "(payload |` set (columns_of model)) k = None"
      using that by (auto simp: restrict_map_def)
    then have "entity k = findOne_or_create model [(primary_of model, Str ident)] repo k"
      by (simp add: e map_add_def)
    then show ?thesis
      by (simp add: find_known [OF assms(1)] findOne_or_create_def create_key [OF assms(1)]
          split: option.splits)
  qed
  show ?thesis
    using u f new old by blast
qed

theorem upsert_merges_columns_witness:
  "\<forall>coerce.
     ''Grant'' \<in> set models
     \<and> key_kept ''Grant'' ''g1'' [''claims'' \<mapsto> Arr [Str ''sub''], ''exp'' \<mapsto> Num 1]
     \<and> typed ''Grant'' [''claims'' \<mapsto> Arr [Str ''sub''], ''exp'' \<mapsto> Num 1]
     \<and> complete ''Grant'' ''g1'' [''claims'' \<mapsto> Arr [Str ''sub''], ''exp'' \<mapsto> Num 1]
          [[''id'' \<mapsto> Str ''g1'', ''accountId'' \<mapsto> Str ''user1'', ''claims'' \<mapsto> Arr []]]
     \<and> (case upsert coerce ''Grant'' ''g1'' [''claims'' \<mapsto> Arr [Str ''sub''], ''exp'' \<mapsto> Num 1]
               None
               [[''id'' \<mapsto> Str ''g1'', ''accountId'' \<mapsto> Str ''user1'', ''claims'' \<mapsto> Arr []]] of
           Inl err \<Rightarrow> False
         | Inr (entity, repo') \<Rightarrow>
             find ''Grant'' ''g1'' repo' = Inr (Some entity)
             \<and> entity ''claims'' = Some (Arr [Str ''sub''])
             \<and> entity ''accountId'' = Some (Str ''user1'')
             \<and> entity ''exp'' = None)"
proof
  fix coerce :: "string \<Rightarrow> val \<Rightarrow> val"
  let ?payload = "[''claims'' \<mapsto> Arr [Str ''sub''], ''exp'' \<mapsto> Num 1]"
  let ?repo = "[[''id'' \<mapsto> Str ''g1'', ''accountId'' \<mapsto> Str ''user1'', ''claims'' \<mapsto> Arr []]]"
  have h1: "''Grant'' \<in> set models"
    and h2: "key_kept ''Grant'' ''g1'' ?payload"
    and h3: "typed ''Grant'' ?payload"
    and h4: "complete ''Grant'' ''g1'' ?payload ?repo"
    by (simp_all add: models_eq key_kept_def typed_def complete_def primary_of_simps
        columns_of_simps required_of_simps type_of_simps fits_def findOne_def)
  obtain entity repo' where
    u: "upsert coerce ''Grant'' ''g1'' ?payload None ?repo = Inr (entity, repo')"
    and f: "find ''Grant'' ''g1'' repo' = Inr (Some entity)"
    and new: "\<forall>k v. k \<in> set (columns_of ''Grant'') \<and> ?payload k = Some v \<longrightarrow> entity k = Some v"
    and old: "\<forall>k. ?payload k = None \<or> k \<notin> set (columns_of ''Grant'') \<longrightarrow>
                entity k = (case find ''Grant'' ''g1'' ?repo of
                              Inr (Some old) \<Rightarrow> old k
                            | _ \<Rightarrow> [primary_of ''Grant'' \<mapsto> Str ''g1''] k)"
    using upsert_merges_columns [OF h1 h2 h3 h4, of coerce None] by blast
  have e1: "entity ''claims'' = Some (Arr [Str ''sub''])"
    using new [rule_format, of "''claims''" "Arr [Str ''sub'']"] by (simp add: columns_of_simps)
  have e2: "entity ''accountId'' = Some (Str ''user1'')"
    using old [rule_format, of "''accountId''"] by (simp add: find_def findOne_def)
  have e3: "entity ''exp'' = None"
    using old [rule_format, of "''exp''"] by (simp add: find_def findOne_def columns_of_simps)
  have c: "case upsert coerce ''Grant'' ''g1'' ?payload None ?repo of
             Inl err \<Rightarrow> False
           | Inr (entity, repo') \<Rightarrow>
               find ''Grant'' ''g1'' repo' = Inr (Some entity)
               \<and> entity ''claims'' = Some (Arr [Str ''sub''])
               \<and> entity ''accountId'' = Some (Str ''user1'')
               \<and> entity ''exp'' = None"
    unfolding u using f e1 e2 e3 by simp
  show "''Grant'' \<in> set models
     \<and> key_kept ''Grant'' ''g1'' ?payload
     \<and> typed ''Grant'' ?payload
     \<and> complete ''Grant'' ''g1'' ?payload ?repo
     \<and> (case upsert coerce ''Grant'' ''g1'' ?payload None ?repo of
           Inl err \<Rightarrow> False
         | Inr (entity, repo') \<Rightarrow>
             find ''Grant'' ''g1'' repo' = Inr (Some entity)
             \<and> entity ''claims'' = Some (Arr [Str ''sub''])
             \<and> entity ''accountId'' = Some (Str ''user1'')
             \<and> entity ''exp'' = None)"
    by (intro conjI) (fact h1 h2 h3 h4 c)+
qed

text \<open>
  C6 as the specification states it fails in four ways. A payload field outside the
  schema (\<^verbatim>\<open>exp\<close> on a grant) is missing from the record \<^verbatim>\<open>find\<close> returns. When the payload
  sets the key column to another value (\<^verbatim>\<open>g2\<close>), the record is stored under that value
  and \<^verbatim>\<open>find\<close> of the id \<^verbatim>\<open>upsert\<close> was called with returns not-found. A first \<^verbatim>\<open>upsert\<close> whose
  payload lacks a column that is \<^verbatim>\<open>NOT NULL\<close> (\<^verbatim>\<open>claims\<close>) is rejected and stores nothing.
  And on a database whose \<^verbatim>\<open>varchar\<close> column gives back the string \<^verbatim>\<open>5\<close> for the number 5,
  \<^verbatim>\<open>find\<close> returns the account id as that string, not as the payload gave it.
\<close>

theorem upsert_drops_fields_counterexample:
  "(\<forall>coerce.
      (case upsert coerce ''Grant'' ''g1''
              [''id'' \<mapsto> Str ''g1'', ''accountId'' \<mapsto> Str ''user1'',
               ''claims'' \<mapsto> Arr [Str ''sub''], ''exp'' \<mapsto> Num 1] None [] of
         Inl err \<Rightarrow> False
       | Inr (entity, repo') \<Rightarrow>
           (case find ''Grant'' ''g1'' repo' of
              Inr (Some found) \<Rightarrow> found ''exp'' = None
            | _ \<Rightarrow> False))
      \<and> (case upsert coerce ''Grant'' ''g1''
              [''id'' \<mapsto> Str ''g2'', ''accountId'' \<mapsto> Str ''user1'',
               ''claims'' \<mapsto> Arr [Str ''sub'']] None [] of
         Inl err \<Rightarrow> False
       | Inr (entity, repo') \<Rightarrow> find ''Grant'' ''g1'' repo' = Inr None)
      \<and> upsert coerce ''Grant'' ''g1'' [''accountId'' \<mapsto> Str ''user1''] None []
          = Inl (NotNullConstraint ''claims''))
   \<and> (case upsert (\<lambda>t v. Str ''5'') ''Grant'' ''g1''
              [''id'' \<mapsto> Str ''g1'', ''accountId'' \<mapsto> Num 5,
               ''claims'' \<mapsto> Arr [Str ''sub'']] None [] of
         Inl err \<Rightarrow> False
       | Inr (entity, repo') \<Rightarrow>
           entity ''accountId'' = Some (Num 5)
           \<and> (case find ''Grant'' ''g1'' repo' of
                 Inr (Some found) \<Rightarrow> found ''accountId'' = Some (Str ''5'')
               | _ \<Rightarrow> False))"
  by (simp add: upsert_def findOne_or_create_def findOne_def create_def merge_def save_def
      written_def updated_def stored_def fits_def type_of_simps required_of_simps
      find_def columns_of_simps primary_of_simps Let_def)


section \<open>Unrecognised kinds\<close>

text \<open>
  The nine method bodies by themselves, were they closed over a name outside the eight
  kinds: \<^verbatim>\<open>upsert\<close> and \<^verbatim>\<open>find\<close> end their chain of kinds with the throw of
  \<^verbatim>\<open>Unknown model\<close>, the seven others have no such branch and would return their neutral
  result.
\<close>

lemma method_bodies_on_other_names:
  "model \<notin> set models \<Longrightarrow>
     upsert coerce model ident payload expiresIn repo = Inl (UnknownModel model)
     \<and> find model ident repo = Inl (UnknownModel model)
     \<and> findByUid model ident repo = Inr None
     \<and> findByUserCode model userCode repo = Inr None
     \<and> findByUidAndUserCode model ident userCode repo = Inr None
     \<and> destroy model ident repo = Inr repo
     \<and> consume model ident repo = Inr repo
     \<and> destroyByGrantId model grantId repo = Inr repo
     \<and> revokeByGrantId model grantId repo = Inr repo"
  by (drule unknown_model)
     (simp add: upsert_def find_def findByUid_def findByUserCode_def findByUidAndUserCode_def
       destroy_def consume_def destroyByGrantId_def revokeByGrantId_def)


lemma getRepository_known:
  "model \<in> set models \<Longrightarrow> \<exists>table. getRepository c model = Inr table"
  by (auto simp: getRepository_def metadata_def models_def find_None_iff split: option.splits)




section \<open>Lookup by uid\<close>

text \<open>
  C8. For every kind other than Session and Interaction \<^verbatim>\<open>findByUid\<close> returns not-found
  whatever the uid and the rows, and never an error. For Session and Interaction it is the
  lookup by the key \<^verbatim>\<open>uid\<close>: it returns a stored row whose \<^verbatim>\<open>uid\<close> is the one asked for,
  or not-found when no row has it.
\<close>

theorem findByUid_kinds:
  "(model \<noteq> ''Session'' \<and> model \<noteq> ''Interaction'' \<longrightarrow> findByUid model uid repo = Inr None)
   \<and> (model = ''Session'' \<or> model = ''Interaction'' \<longrightarrow>
        findByUid model uid repo = find model uid repo
        \<and> (case findByUid model uid repo of
             Inr None \<Rightarrow> \<forall>r \<in> set repo. r ''uid'' \<noteq> Some (Str uid)
           | Inr (Some e) \<Rightarrow> e \<in> set repo \<and> e ''uid'' = Some (Str uid)
           | Inl err \<Rightarrow> False))"
proof (intro conjI impI)
  assume "model \<noteq> ''Session'' \<and> model \<noteq> ''Interaction''"
  then show "findByUid model uid repo = Inr None"
    by (simp add: findByUid_def)
next
  assume k: "model = ''Session'' \<or> model = ''Interaction''"
  then show "findByUid model uid repo = find model uid repo"
    by (elim disjE) (simp_all add: findByUid_def find_def)
next
  assume k: "model = ''Session'' \<or> model = ''Interaction''"
  then have eq: "findByUid model uid repo = Inr (findOne [(''uid'', Str uid)] repo)"
    by (elim disjE) (simp_all add: findByUid_def)
  show "case findByUid model uid repo of
          Inr None \<Rightarrow> \<forall>r \<in> set repo. r ''uid'' \<noteq> Some (Str uid)
        | Inr (Some e) \<Rightarrow> e \<in> set repo \<and> e ''uid'' = Some (Str uid)
        | Inl err \<Rightarrow> False"
  proof (cases "findOne [(''uid'', Str uid)] repo")
    case None
    then show ?thesis
      using findOne_None_iff [of "[(''uid'', Str uid)]" repo] by (simp add: eq)
  next
    case (Some e)
    then show ?thesis
      using findOne_Some_D [OF Some] by (simp add: eq)
  qed
qed

theorem findByUid_kinds_witness:
  "(''Grant'' \<noteq> ''Session'' \<and> ''Grant'' \<noteq> ''Interaction'')
   \<and> findByUid ''Grant'' ''g1'' [[''id'' \<mapsto> Str ''g1'']] = Inr None
   \<and> (''Session'' = ''Session'' \<or> ''Session'' = ''Interaction'')
   \<and> findByUid ''Session'' ''s1'' [[''uid'' \<mapsto> Str ''s1'']]
       = find ''Session'' ''s1'' [[''uid'' \<mapsto> Str ''s1'']]
   \<and> findByUid ''Session'' ''s1'' [[''uid'' \<mapsto> Str ''s1'']] = Inr (Some [''uid'' \<mapsto> Str ''s1''])"
  using findByUid_kinds [of "''Grant''" "''g1''" "[[''id'' \<mapsto> Str ''g1'']]"]
    findByUid_kinds [of "''Session''" "''s1''" "[[''uid'' \<mapsto> Str ''s1'']]"]
  by (simp add: findByUid_def findOne_def)


section \<open>The callback route\<close>

text \<open>
  C9. The route passes the state stored in the session to the client library as
  \<^verbatim>\<open>expectedState\<close>. For a library that rejects a callback URL whose state differs from
  \<^verbatim>\<open>expectedState\<close> before it contacts the token endpoint (the world outside is as
  before), a callback whose state differs from the stored one ends in the error answer
  with the session unchanged (no token set) and no exchange made. And whenever the
  library call fails, for any reason, the route answers with the error, leaves the
  session unchanged and makes no second call: the world is the one the single failed
  call left. Both copies of the route behave so.
\<close>

theorem callback_failure_is_surfaced:
  fixes authorizationCodeGrant :: "string \<Rightarrow> checks \<Rightarrow> 'w \<Rightarrow> ('e + tokens) \<times> 'w"
    and returned_state :: "string \<Rightarrow> string option"
  assumes library:
    "\<And>url chk w. returned_state url \<noteq> expectedState chk
       \<Longrightarrow> \<exists>err. authorizationCodeGrant url chk w = (Inl err, w)"
  shows "(returned_state (currentUrl req) \<noteq> state sess \<longrightarrow>
            app_callback authorizationCodeGrant True req sess w
              = (Send 500 ''Callback error'', sess, w)
            \<and> part_001_callback authorizationCodeGrant True req sess w
              = (Send 200 ''Callback error'', sess, w))
         \<and> (\<forall>err w'. authorizationCodeGrant (currentUrl req)
                         \<lparr>pkceCodeVerifier = code_verifier sess, expectedState = state sess\<rparr> w
                       = (Inl err, w') \<longrightarrow>
               app_callback authorizationCodeGrant True req sess w
                 = (Send 500 ''Callback error'', sess, w')
               \<and> part_001_callback authorizationCodeGrant True req sess w
                 = (Send 200 ''Callback error'', sess, w'))"
proof -
  let ?chk = "\<lparr>pkceCodeVerifier = code_verifier sess, expectedState = state sess\<rparr>"
  have failure:
    "app_callback authorizationCodeGrant True req sess w = (Send 500 ''Callback error'', sess, w')
     \<and> part_001_callback authorizationCodeGrant True req sess w
         = (Send 200 ''Callback error'', sess, w')"
    if "authorizationCodeGrant (currentUrl req) ?chk w = (Inl err, w')" for err w'
    using that by (simp add: app_callback_def part_001_callback_def)
  have mismatch:
    "app_callback authorizationCodeGrant True req sess w = (Send 500 ''Callback error'', sess, w)
     \<and> part_001_callback authorizationCodeGrant True req sess w
         = (Send 200 ''Callback error'', sess, w)"
    if "returned_state (currentUrl req) \<noteq> state sess"
  proof -
    from that have "returned_state (currentUrl req) \<noteq> expectedState ?chk"
      by simp
    then obtain err where "authorizationCodeGrant (currentUrl req) ?chk w = (Inl err, w)"
      using library by blast
    then show ?thesis
      by (rule failure)
  qed
  show ?thesis
    using failure mismatch by blast
qed

text \<open>
  A login stores the state \<^verbatim>\<open>S1\<close>; the provider redirects back with the state \<^verbatim>\<open>S2\<close>; the
  library at hand compares the two and counts the exchanges it makes.
\<close>

theorem callback_failure_is_surfaced_witness:
  "snd (login (\<lambda>verifier. verifier) (\<lambda>parameters. ''https://localhost:4000/auth'') True
          ''v1'' ''S1''
          \<lparr>code_verifier = None, state = None, tokenSet = None, expectedSubject = None\<rparr>)
     = \<lparr>code_verifier = Some ''v1'', state = Some ''S1'', tokenSet = None, expectedSubject = None\<rparr>
   \<and> (if currentUrl \<lparr>protocol = ''https'', host = ''localhost:3000'',
                      originalUrl = ''/callback?code=c1&state=S2''\<rparr>
          = ''https://localhost:3000/callback?code=c1&state=S2'' then Some ''S2'' else None)
       \<noteq> state \<lparr>code_verifier = Some ''v1'', state = Some ''S1'', tokenSet = None,
                  expectedSubject = None\<rparr>
   \<and> app_callback
         (\<lambda>url chk (w :: nat).
            if (if url = ''https://localhost:3000/callback?code=c1&state=S2''
                then Some ''S2'' else None) \<noteq> expectedState chk
            then (Inl ''state mismatch'', w)
            else (Inr \<lparr>access_token = ''at1'', claims = Some [''sub'' \<mapsto> ''user1'']\<rparr>, Suc w))
         True
         \<lparr>protocol = ''https'', host = ''localhost:3000'',
          originalUrl = ''/callback?code=c1&state=S2''\<rparr>
         \<lparr>code_verifier = Some ''v1'', state = Some ''S1'', tokenSet = None, expectedSubject = None\<rparr>
         0
       = (Send 500 ''Callback error'',
          \<lparr>code_verifier = Some ''v1'', state = Some ''S1'', tokenSet = None, expectedSubject = None\<rparr>,
          0)"
proof -
  let ?returned = "\<lambda>url. if url = ''https://localhost:3000/callback?code=c1&state=S2''
                          then Some ''S2'' else None"
  let ?grant = "\<lambda>url chk (w :: nat).
            if (if url = ''https://localhost:3000/callback?code=c1&state=S2''
                then Some ''S2'' else None) \<noteq> expectedState chk
            then (Inl ''state mismatch'', w)
            else (Inr \<lparr>access_token = ''at1'', claims = Some [''sub'' \<mapsto> ''user1'']\<rparr>, Suc w)"
  have library: "\<exists>err. ?grant url chk w = (Inl err, w)"
    if "?returned url \<noteq> expectedState chk" for url chk w
    using that by simp
  show ?thesis
    using callback_failure_is_surfaced [of ?returned ?grant, OF library,
        of "\<lparr>protocol = ''https'', host = ''localhost:3000'',
             originalUrl = ''/callback?code=c1&state=S2''\<rparr>"
           "\<lparr>code_verifier = Some ''v1'', state = Some ''S1'', tokenSet = None,
             expectedSubject = None\<rparr>"
           0]
    by (simp add: login_def currentUrl_def Let_def)
qed


section \<open>The factory\<close>




end
